theory Spec2Isabelle
  imports Main
begin

section \<open>Errors\<close>

text \<open>
  Go errors are values carrying a message. \<open>New s\<close> is an error whose message is \<open>s\<close>
  (\<open>fmt.Errorf\<close> without \<open>%w\<close>, \<open>errors.New\<close>, or an error produced by a
  collaborator such as the operating system, the LLM client or a tool);
  \<open>Wrap p e\<close> is \<open>fmt.Errorf(p + ": %w", e)\<close>. \<open>error_string\<close> is the method
  \<open>Error()\<close>.
\<close>

datatype error = New string | Wrap string error

fun error_string :: "error \<Rightarrow> string" where
  "error_string (New s) = s"
| "error_string (Wrap p e) = p @ '': '' @ error_string e"

section \<open>The agent loop (platforms/local/agent.go)\<close>

text \<open>
  JSON-shaped values, as far as the static parameter schemas of
  \<open>getToolParameters\<close> need them.
\<close>

datatype json = JString string | JStrings "string list" | JObject "(string \<times> json) list"

record Message =
  Role :: string
  Content :: string
  Name :: string
  ToolID :: string

record ToolDefinition =
  def_Name :: string
  def_Description :: string
  Parameters :: json

text \<open>
  The arguments of a tool call (\<open>map[string]any\<close>) are kept abstract as \<open>'a\<close>, the
  value a tool returns (\<open>any\<close>) as \<open>'v\<close>.
\<close>

record 'a ToolCall =
  ID :: string
  call_Name :: string
  Arguments :: 'a

record 'a CompletionResponse =
  resp_Content :: string
  ToolCalls :: "'a ToolCall list"
  Done :: bool

record AgentResult =
  Agent :: string
  Input :: string
  Output :: string
  Success :: bool
  Error :: string

text \<open>
  The interfaces \<open>Tool\<close> and \<open>LLMClient\<close> are implemented outside the loop. Their
  methods have effects (files, processes, the network), so each takes the state of the
  world \<open>'w\<close> and returns the new one together with Go's pair of result and error.
  A client is assumed to follow Go's convention that the response is not nil when the
  error is nil.
\<close>

record ('a, 'v, 'w) Tool =
  tool_Name :: string
  tool_Description :: string
  Execute :: "'a \<Rightarrow> 'w \<Rightarrow> (error + 'v) \<times> 'w"

type_synonym ('a, 'w) LLMClient =
  "Message list \<Rightarrow> ToolDefinition list \<Rightarrow> 'w \<Rightarrow> (error + 'a CompletionResponse) \<times> 'w"

record ('a, 'v, 'w) EmbeddedAgent =
  name :: string
  description :: string
  instructions :: string
  tools :: "('a, 'v, 'w) Tool list"
  llm :: "('a, 'w) LLMClient"
  maxTokens :: int

definition string_prop :: "string \<Rightarrow> string \<Rightarrow> string \<times> json" where
  "string_prop key descr =
     (key, JObject [(''type'', JString ''string''), (''description'', JString descr)])"

definition getToolParameters :: "string \<Rightarrow> json" where
  "getToolParameters nm =
    (if nm = ''read'' then
       JObject [(''type'', JString ''object''),
                (''properties'', JObject [string_prop ''path'' ''Path to the file to read'']),
                (''required'', JStrings [''path''])]
     else if nm = ''write'' then
       JObject [(''type'', JString ''object''),
                (''properties'', JObject [string_prop ''path'' ''Path to the file to write'',
                                          string_prop ''content'' ''Content to write to the file'']),
                (''required'', JStrings [''path'', ''content''])]
     else if nm = ''glob'' then
       JObject [(''type'', JString ''object''),
                (''properties'', JObject [string_prop ''pattern'' ''Glob pattern to match files'']),
                (''required'', JStrings [''pattern''])]
     else if nm = ''grep'' then
       JObject [(''type'', JString ''object''),
                (''properties'', JObject [string_prop ''pattern'' ''Regex pattern to search for'',
                                          string_prop ''file_pattern''
                                            ''Optional file name pattern to filter files'']),
                (''required'', JStrings [''pattern''])]
     else if nm = ''shell'' then
       JObject [(''type'', JString ''object''),
                (''properties'', JObject [string_prop ''command'' ''Shell command to execute'']),
                (''required'', JStrings [''command''])]
     else JObject [(''type'', JString ''object'')])"

definition buildToolDefinitions :: "('a, 'v, 'w, 'x) EmbeddedAgent_scheme \<Rightarrow> ToolDefinition list" where
  "buildToolDefinitions a =
     map (\<lambda>tool. \<lparr>def_Name = tool_Name tool, def_Description = tool_Description tool,
                   Parameters = getToolParameters (tool_Name tool)\<rparr>) (tools a)"

text \<open>\<open>executeTool\<close>: the first tool of the agent with the call's name runs.\<close>

fun executeTool ::
  "('a, 'v, 'w) Tool list \<Rightarrow> 'a ToolCall \<Rightarrow> 'w \<Rightarrow> (error + 'v) \<times> 'w" where
  "executeTool [] tc w = (Inl (New (''unknown tool: '' @ call_Name tc)), w)"
| "executeTool (tool # rest) tc w =
     (if tool_Name tool = call_Name tc then Execute tool (Arguments tc) w
      else executeTool rest tc w)"

text \<open>
  The inner loop of \<open>Invoke\<close> over \<open>resp.ToolCalls\<close>. \<open>marshal\<close> is
  \<open>json.Marshal\<close> followed by the conversion to a string (its error is dropped by the
  source).
\<close>

fun executeToolCalls ::
  "('v \<Rightarrow> string) \<Rightarrow> ('a, 'v, 'w) Tool list \<Rightarrow> 'a ToolCall list \<Rightarrow> Message list \<Rightarrow> 'w
   \<Rightarrow> Message list \<times> 'w" where
  "executeToolCalls marshal ts [] messages w = (messages, w)"
| "executeToolCalls marshal ts (tc # tcs) messages w =
     (case executeTool ts tc w of
        (res, w') \<Rightarrow>
          let resultContent =
                (case res of Inl err \<Rightarrow> ''Error: '' @ error_string err
                           | Inr result \<Rightarrow> marshal result)
          in executeToolCalls marshal ts tcs
               (messages @ [\<lparr>Role = ''tool'', Content = resultContent,
                              Name = call_Name tc, ToolID = ID tc\<rparr>]) w')"

definition maxIterations :: nat where
  "maxIterations = 10"

text \<open>The loop \<open>for i := 0; i < maxIterations; i++\<close> of \<open>Invoke\<close>, entered at \<open>i\<close>.\<close>

function agent_loop ::
  "('v \<Rightarrow> string) \<Rightarrow> ('a, 'v, 'w) EmbeddedAgent \<Rightarrow> string \<Rightarrow> ToolDefinition list \<Rightarrow> nat
   \<Rightarrow> Message list \<Rightarrow> 'w \<Rightarrow> (error + AgentResult) \<times> 'w" where
  "agent_loop marshal a input toolDefs i messages w =
     (if i < maxIterations then
        (case llm a messages toolDefs w of
           (Inl err, w') \<Rightarrow> (Inl (Wrap ''LLM completion failed'' err), w')
         | (Inr resp, w') \<Rightarrow>
             if ToolCalls resp = [] \<or> Done resp then
               (Inr \<lparr>Agent = name a, Input = input, Output = resp_Content resp,
                     Success = True, Error = ''''\<rparr>, w')
             else
               (case executeToolCalls marshal (tools a) (ToolCalls resp)
                       (messages @ [\<lparr>Role = ''assistant'', Content = resp_Content resp,
                                      Name = '''', ToolID = ''''\<rparr>]) w' of
                  (messages', w'') \<Rightarrow>
                    agent_loop marshal a input toolDefs (Suc i) messages' w''))
      else
        (Inr \<lparr>Agent = name a, Input = input, Output = ''Max iterations reached'',
              Success = False, Error = ''agent loop exceeded maximum iterations''\<rparr>, w))"
  by pat_completeness auto
termination
  by (relation "measure (\<lambda>(marshal, a, input, toolDefs, i, messages, w). maxIterations - i)") auto

declare agent_loop.simps [simp del]

definition Invoke ::
  "('v \<Rightarrow> string) \<Rightarrow> ('a, 'v, 'w) EmbeddedAgent \<Rightarrow> string \<Rightarrow> 'w \<Rightarrow> (error + AgentResult) \<times> 'w" where
  "Invoke marshal a input w =
     agent_loop marshal a input (buildToolDefinitions a) 0
       [\<lparr>Role = ''system'', Content = instructions a, Name = '''', ToolID = ''''\<rparr>,
        \<lparr>Role = ''user'', Content = input, Name = '''', ToolID = ''''\<rparr>] w"

section \<open>The runner (platforms/local/runner.go)\<close>

text \<open>
  \<open>Runner.agents\<close> is a Go map from agent names to agents. The mutex only protects
  the map; the model reads the map directly.
\<close>

record ('a, 'v, 'w) Runner =
  agents :: "string \<rightharpoonup> ('a, 'v, 'w) EmbeddedAgent"

definition Runner_Invoke ::
  "('v \<Rightarrow> string) \<Rightarrow> ('a, 'v, 'w) Runner \<Rightarrow> string \<Rightarrow> string \<Rightarrow> 'w
   \<Rightarrow> (error + AgentResult) \<times> 'w" where
  "Runner_Invoke marshal r agentName input w =
     (case agents r agentName of
        None \<Rightarrow> (Inl (New (''agent not found: '' @ agentName)), w)
      | Some agent \<Rightarrow>
          (case Invoke marshal agent input w of
             (Inl err, w') \<Rightarrow> (Inl (Wrap ''agent invocation failed'' err), w')
           | (Inr result, w') \<Rightarrow> (Inr result, w')))"

record AgentTask =
  task_Agent :: string
  task_Input :: string

text \<open>
  The result that \<open>InvokeParallel\<close> and \<open>InvokeSequential\<close> build when
  \<open>r.Invoke\<close> returns an error; \<open>Output\<close> keeps Go's zero value.
\<close>

definition failed_result :: "AgentTask \<Rightarrow> error \<Rightarrow> AgentResult" where
  "failed_result t err =
     \<lparr>Agent = task_Agent t, Input = task_Input t, Output = '''', Success = False,
      Error = error_string err\<rparr>"

text \<open>
  The body of the goroutine that \<open>InvokeParallel\<close> starts for the task at index
  \<open>idx\<close>. It writes the slots \<open>results[idx]\<close> and \<open>errors[idx]\<close> only. A slot
  of \<open>results\<close> is a pointer: \<open>None\<close> is nil.
\<close>

definition parallel_worker ::
  "('v \<Rightarrow> string) \<Rightarrow> ('a, 'v, 'w) Runner \<Rightarrow> nat \<Rightarrow> AgentTask
   \<Rightarrow> AgentResult option list \<times> error option list \<times> 'w
   \<Rightarrow> AgentResult option list \<times> error option list \<times> 'w" where
  "parallel_worker marshal r idx t st =
     (case st of (results, errors, w) \<Rightarrow>
        (case Runner_Invoke marshal r (task_Agent t) (task_Input t) w of
           (Inl err, w') \<Rightarrow>
             (results[idx := Some (failed_result t err)], errors[idx := Some err], w')
         | (Inr result, w') \<Rightarrow> (results[idx := Some result], errors, w')))"

text \<open>
  \<open>InvokeParallel\<close> starts one goroutine per task and waits for all of them. The
  order in which the goroutines run is not fixed by the program; the model takes it
  as the argument \<open>sched\<close>, a list of the task indices in the order in which the
  goroutines run, each goroutine running as one step. The second component of the
  Go result, the error, is nil on every path, so the model returns only the slice
  (\<open>[]\<close> for the nil slice).
\<close>

definition InvokeParallel ::
  "('v \<Rightarrow> string) \<Rightarrow> ('a, 'v, 'w) Runner \<Rightarrow> AgentTask list \<Rightarrow> nat list \<Rightarrow> 'w
   \<Rightarrow> (error + AgentResult option list) \<times> 'w" where
  "InvokeParallel marshal r tasks sched w =
     (if length tasks = 0 then (Inr [], w)
      else
        (case foldl (\<lambda>st idx. parallel_worker marshal r idx (tasks ! idx) st)
                (replicate (length tasks) None, replicate (length tasks) None, w) sched of
           (results, errors, w') \<Rightarrow> (Inr results, w')))"

text \<open>
  The loop of \<open>InvokeSequential\<close>, entered at index \<open>i\<close> with the tasks that are
  left. For every task it yields the value of the local variable \<open>input\<close> that was
  passed to \<open>r.Invoke\<close>, paired with the result appended to \<open>results\<close>.
\<close>

definition effective_input :: "string \<Rightarrow> nat \<Rightarrow> AgentTask \<Rightarrow> string" where
  "effective_input contextBuilder i task =
     (if contextBuilder \<noteq> '''' \<and> i > 0 then
        ''Previous context:'' @ [CHR 0x0A] @ contextBuilder @ [CHR 0x0A, CHR 0x0A]
          @ ''Current task:'' @ [CHR 0x0A] @ task_Input task
      else task_Input task)"

definition context_entry :: "AgentTask \<Rightarrow> AgentResult \<Rightarrow> string" where
  "context_entry task result =
     [CHR 0x0A] @ ''['' @ task_Agent task @ '']: '' @ Output result @ [CHR 0x0A]"

fun sequential_loop ::
  "('v \<Rightarrow> string) \<Rightarrow> ('a, 'v, 'w) Runner \<Rightarrow> nat \<Rightarrow> AgentTask list \<Rightarrow> string \<Rightarrow> 'w
   \<Rightarrow> (string \<times> AgentResult) list \<times> 'w" where
  "sequential_loop marshal r i [] contextBuilder w = ([], w)"
| "sequential_loop marshal r i (task # rest) contextBuilder w =
     (let input = effective_input contextBuilder i task in
      case Runner_Invoke marshal r (task_Agent task) input w of
        (res, w') \<Rightarrow>
          let result = (case res of Inl err \<Rightarrow> failed_result task err
                                  | Inr result \<Rightarrow> result);
              contextBuilder' =
                (if Success result then contextBuilder @ context_entry task result
                 else contextBuilder)
          in (case sequential_loop marshal r (Suc i) rest contextBuilder' w' of
                (steps, w'') \<Rightarrow> ((input, result) # steps, w'')))"

definition InvokeSequential ::
  "('v \<Rightarrow> string) \<Rightarrow> ('a, 'v, 'w) Runner \<Rightarrow> AgentTask list \<Rightarrow> 'w
   \<Rightarrow> (error + AgentResult list) \<times> 'w" where
  "InvokeSequential marshal r tasks w =
     (if length tasks = 0 then (Inr [], w)
      else
        (case sequential_loop marshal r 0 tasks '''' w of
           (steps, w') \<Rightarrow> (Inr (map snd steps), w')))"

section \<open>The workspace sandbox (platforms/local/tools.go)\<close>

subsection \<open>Go's \<open>path/filepath\<close> on Unix\<close>

text \<open>
  \<open>validatePath\<close> is built from \<open>filepath.IsAbs\<close>, \<open>Join\<close>, \<open>Abs\<close> and
  \<open>Rel\<close> of Go's standard library. They are modelled here on path elements: a path
  is cut at every separator, \<open>Clean\<close> drops empty and \<open>.\<close> elements and lets a
  \<open>..\<close> element remove the element before it (at the root there is nothing to
  remove; in a relative path the leading \<open>..\<close> elements are kept).
\<close>

definition HasPrefix :: "string \<Rightarrow> string \<Rightarrow> bool" where
  "HasPrefix s prefix = (take (length prefix) s = prefix)"

definition IsAbs :: "string \<Rightarrow> bool" where
  "IsAbs path = HasPrefix path ''/''"

fun split_sep :: "string \<Rightarrow> string list" where
  "split_sep [] = [[]]"
| "split_sep (c # cs) =
     (if c = CHR ''/'' then [] # split_sep cs
      else (case split_sep cs of [] \<Rightarrow> [[c]] | x # xs \<Rightarrow> (c # x) # xs))"

fun join_sep :: "string list \<Rightarrow> string" where
  "join_sep [] = []"
| "join_sep [x] = x"
| "join_sep (x # y # ys) = x @ ''/'' @ join_sep (y # ys)"

definition clean_step :: "bool \<Rightarrow> string list \<Rightarrow> string \<Rightarrow> string list" where
  "clean_step rooted out elem =
     (if elem = '''' \<or> elem = ''.'' then out
      else if elem = ''..'' then
        (if out \<noteq> [] \<and> last out \<noteq> ''..'' then butlast out
         else if rooted then out
         else out @ [''..''])
      else out @ [elem])"

definition Clean :: "string \<Rightarrow> string" where
  "Clean path =
     (if path = '''' then ''.''
      else
        (let rooted = IsAbs path;
             out = foldl (clean_step rooted) [] (split_sep path)
         in if rooted then ''/'' @ join_sep out
            else if out = [] then ''.''
            else join_sep out))"

fun Join :: "string list \<Rightarrow> string" where
  "Join [] = ''''"
| "Join (e # es) = (if e \<noteq> '''' then Clean (join_sep (e # es)) else Join es)"

text \<open>
  The operating system as the sandbox reads it: the working directory of the process
  (\<open>os.Getwd\<close>), \<open>os.Stat\<close> and \<open>os.ReadFile\<close>.
\<close>

record FileInfo =
  IsDir :: bool
  Size :: int

record OS =
  Getwd :: "error + string"
  Stat :: "string \<Rightarrow> error + FileInfo"
  os_ReadFile :: "string \<Rightarrow> error + string"

definition Abs :: "OS \<Rightarrow> string \<Rightarrow> error + string" where
  "Abs os path =
     (if IsAbs path then Inr (Clean path)
      else (case Getwd os of Inl err \<Rightarrow> Inl err | Inr wd \<Rightarrow> Inr (Join [wd, path])))"

text \<open>
  \<open>Rel\<close> walks the elements of the two cleaned paths (a rooted path starts with an
  empty element) up to the first pair that differs, then goes up once for every
  element left of the base and down along the elements left of the target.
\<close>

definition elements :: "string \<Rightarrow> string list" where
  "elements p = (if p = '''' then [] else if p = ''/'' then [''''] else split_sep p)"

fun drop_common :: "string list \<Rightarrow> string list \<Rightarrow> string list \<times> string list" where
  "drop_common (b # bs) (t # ts) =
     (if b = t then drop_common bs ts else (b # bs, t # ts))"
| "drop_common bs ts = (bs, ts)"

definition Rel :: "string \<Rightarrow> string \<Rightarrow> error + string" where
  "Rel basepath targpath =
     (let base = Clean basepath; targ = Clean targpath in
      if targ = base then Inr ''.''
      else
        (let base' = (if base = ''.'' then '''' else base) in
         if IsAbs base' \<noteq> IsAbs targ then
           Inl (New (''Rel: can't make '' @ targpath @ '' relative to '' @ basepath))
         else
           (case drop_common (elements base') (elements targ) of
              (rb, rt) \<Rightarrow>
                if rb \<noteq> [] \<and> rt \<noteq> [] \<and> hd rb = ''..'' then
                  Inl (New (''Rel: can't make '' @ targpath @ '' relative to '' @ basepath))
                else if rb \<noteq> [] then Inr (join_sep (replicate (length rb) ''..'' @ rt))
                else Inr (join_sep rt))))"

subsection \<open>\<open>ToolSet\<close>\<close>

record ToolSet =
  workspace :: string
  maxFileSize :: int

definition NewToolSet :: "string \<Rightarrow> ToolSet" where
  "NewToolSet ws = \<lparr>workspace = ws, maxFileSize = 10 * 1024 * 1024\<rparr>"

definition validatePath :: "OS \<Rightarrow> ToolSet \<Rightarrow> string \<Rightarrow> error + string" where
  "validatePath os ts path0 =
     (let path = (if \<not> IsAbs path0 then Join [workspace ts, path0] else path0) in
      case Abs os path of
        Inl err \<Rightarrow> Inl (Wrap ''invalid path'' err)
      | Inr absPath \<Rightarrow>
          (case Rel (workspace ts) absPath of
             Inl err \<Rightarrow> Inl (Wrap ''path outside workspace'' err)
           | Inr relPath \<Rightarrow>
               if HasPrefix relPath ''..'' then
                 Inl (New (''path outside workspace: '' @ path))
               else Inr absPath))"

text \<open>\<open>%d\<close> of \<open>fmt\<close>: a signed decimal numeral.\<close>

fun digits :: "nat \<Rightarrow> string" where
  "digits n =
     (if n < 10 then [''0123456789'' ! n]
      else digits (n div 10) @ [''0123456789'' ! (n mod 10)])"

declare digits.simps [simp del]

definition format_int :: "int \<Rightarrow> string" where
  "format_int i = (if i < 0 then ''-'' @ digits (nat (- i)) else digits (nat i))"

definition ReadFile :: "OS \<Rightarrow> ToolSet \<Rightarrow> string \<Rightarrow> error + string" where
  "ReadFile os ts path =
     (case validatePath os ts path of
        Inl err \<Rightarrow> Inl err
      | Inr absPath \<Rightarrow>
          (case Stat os absPath of
             Inl err \<Rightarrow> Inl (Wrap ''cannot access file'' err)
           | Inr info \<Rightarrow>
               if IsDir info then Inl (New (''path is a directory: '' @ path))
               else if Size info > maxFileSize ts then
                 Inl (New (''file too large: '' @ format_int (Size info) @ '' bytes (max ''
                           @ format_int (maxFileSize ts) @ '')''))
               else
                 (case os_ReadFile os absPath of
                    Inl err \<Rightarrow> Inl (Wrap ''failed to read file'' err)
                  | Inr content \<Rightarrow> Inr content)))"

subsection \<open>Shell execution\<close>

text \<open>
  What \<open>cmd.Run()\<close> of \<open>os/exec\<close> leaves behind: the bytes written to the two
  buffers and the error, which is nil, an \<open>*exec.ExitError\<close> with its exit code, or
  any other error (the process could not be started). The process runs in the world
  \<open>'w\<close>; \<open>exec\<close> receives the command, its arguments and \<open>cmd.Dir\<close>.
\<close>

datatype run_error = ExitError int | OtherError error

record RunOutcome =
  run_stdout :: string
  run_stderr :: string
  run_err :: "run_error option"

record CommandResult =
  Command :: string
  Args :: "string list"
  Stdout :: string
  Stderr :: string
  ExitCode :: int

definition RunCommand ::
  "(string \<Rightarrow> string list \<Rightarrow> string \<Rightarrow> 'w \<Rightarrow> RunOutcome \<times> 'w) \<Rightarrow> ToolSet \<Rightarrow> string
   \<Rightarrow> string list \<Rightarrow> 'w \<Rightarrow> (error + CommandResult) \<times> 'w" where
  "RunCommand exec ts command args w =
     (case exec command args (workspace ts) w of
        (outcome, w') \<Rightarrow>
          (let result = \<lparr>Command = command, Args = args, Stdout = run_stdout outcome,
                         Stderr = run_stderr outcome, ExitCode = 0\<rparr>
           in case run_err outcome of
                None \<Rightarrow> (Inr result, w')
              | Some (ExitError code) \<Rightarrow> (Inr (result\<lparr>ExitCode := code\<rparr>), w')
              | Some (OtherError err) \<Rightarrow> (Inl (Wrap ''command execution failed'' err), w')))"

definition RunShell ::
  "(string \<Rightarrow> string list \<Rightarrow> string \<Rightarrow> 'w \<Rightarrow> RunOutcome \<times> 'w) \<Rightarrow> ToolSet \<Rightarrow> string
   \<Rightarrow> 'w \<Rightarrow> (error + CommandResult) \<times> 'w" where
  "RunShell exec ts shellCmd w = RunCommand exec ts ''sh'' [''-c'', shellCmd] w"

definition CommandResult_Success :: "CommandResult \<Rightarrow> bool" where
  "CommandResult_Success r = (ExitCode r = 0)"

section \<open>The MCP server (mcp/protocol.go, mcp/server.go)\<close>

text \<open>A \<open>json.RawMessage\<close> is a byte slice; \<open>None\<close> is the nil slice.\<close>

type_synonym RawMessage = "string option"

record Request =
  req_JSONRPC :: string
  req_ID :: RawMessage
  Method :: string
  Params :: RawMessage

text \<open>The field \<open>Data\<close> is filled with an error or left nil by every caller.\<close>

record ErrorResponse =
  Code :: int
  Message :: string
  Data :: "error option"

definition ErrParseError :: int where "ErrParseError = - 32700"
definition ErrInvalidRequest :: int where "ErrInvalidRequest = - 32600"
definition ErrMethodNotFound :: int where "ErrMethodNotFound = - 32601"
definition ErrInvalidParams :: int where "ErrInvalidParams = - 32602"
definition ErrInternalError :: int where "ErrInternalError = - 32603"

record ServerInfo =
  si_Name :: string
  si_Version :: string

record ToolsCapability =
  tools_ListChanged :: bool

record ResourcesCapability =
  Subscribe :: bool
  resources_ListChanged :: bool

record PromptsCapability =
  prompts_ListChanged :: bool

record Capabilities =
  cap_Tools :: "ToolsCapability option"
  cap_Resources :: "ResourcesCapability option"
  cap_Prompts :: "PromptsCapability option"

record InitializeResult =
  res_ProtocolVersion :: string
  res_Capabilities :: Capabilities
  res_ServerInfo :: ServerInfo

record Property =
  prop_Type :: string
  prop_Description :: string
  Enum :: "string list"

record InputSchema =
  schema_Type :: string
  Properties :: "(string \<times> Property) list"
  Required :: "string list"

record ToolInfo =
  ti_Name :: string
  ti_Description :: string
  ti_InputSchema :: InputSchema

record ContentBlock =
  block_Type :: string
  Text :: string
  block_Data :: string
  block_MimeType :: string

record CallToolResult =
  call_Content :: "ContentBlock list"
  IsError :: bool

record ResourceInfo =
  URI :: string
  ri_Name :: string
  ri_Description :: string
  ri_MimeType :: string

record PromptArgument =
  pa_Name :: string
  pa_Description :: string
  pa_Required :: bool

record PromptInfo =
  pi_Name :: string
  pi_Description :: string
  pi_Arguments :: "PromptArgument list"

text \<open>The values stored in \<open>Response.Result\<close> (an \<open>interface{}\<close>).\<close>

datatype Result =
    InitializeRes InitializeResult
  | ListToolsRes "ToolInfo list"
  | CallToolRes CallToolResult
  | ListResourcesRes "ResourceInfo list"
  | ListPromptsRes "PromptInfo list"

record Response =
  resp_JSONRPC :: string
  resp_ID :: RawMessage
  resp_Result :: "Result option"
  resp_Error :: "ErrorResponse option"

definition ProtocolVersion :: string where
  "ProtocolVersion = ''2024-11-05''"

record Server =
  serverInfo :: ServerInfo
  initialized :: bool

text \<open>
  What the server reaches through its collaborators, in the world \<open>'w\<close>:
  whether the context is done and its error; \<open>json.Unmarshal\<close> of a line into a
  \<open>Request\<close>; \<open>runner.ListAgents()\<close>, which enumerates a Go map in an order that
  may change from call to call; and \<open>handleToolsCall\<close>, which runs agents and
  sandbox operations and is not needed in detail here.
\<close>

record 'w Backend =
  ctx_Done :: "'w \<Rightarrow> bool"
  ctx_Err :: "'w \<Rightarrow> error"
  json_Unmarshal :: "string \<Rightarrow> error + Request"
  ListAgents :: "'w \<Rightarrow> string list"
  handleToolsCall :: "Request \<Rightarrow> 'w \<Rightarrow> Response \<times> 'w"

definition errorResponse :: "RawMessage \<Rightarrow> int \<Rightarrow> string \<Rightarrow> error option \<Rightarrow> Response" where
  "errorResponse rid code message data =
     \<lparr>resp_JSONRPC = ''2.0'', resp_ID = rid, resp_Result = None,
      resp_Error = Some \<lparr>Code = code, Message = message, Data = data\<rparr>\<rparr>"

definition handleInitialize :: "Server \<Rightarrow> Request \<Rightarrow> Response \<times> Server" where
  "handleInitialize s req =
     (\<lparr>resp_JSONRPC = ''2.0'', resp_ID = req_ID req,
       resp_Result = Some (InitializeRes
         \<lparr>res_ProtocolVersion = ProtocolVersion,
          res_Capabilities = \<lparr>cap_Tools = Some \<lparr>tools_ListChanged = False\<rparr>,
                              cap_Resources = None, cap_Prompts = None\<rparr>,
          res_ServerInfo = serverInfo s\<rparr>),
       resp_Error = None\<rparr>,
      s\<lparr>initialized := True\<rparr>)"

definition string_property :: "string \<Rightarrow> string \<Rightarrow> string \<times> Property" where
  "string_property key descr =
     (key, \<lparr>prop_Type = ''string'', prop_Description = descr, Enum = []\<rparr>)"

definition tool_catalog :: "string list \<Rightarrow> ToolInfo list" where
  "tool_catalog agentNames =
     [\<lparr>ti_Name = ''invoke_agent'',
       ti_Description = ''Invoke a specific agent with an input prompt'',
       ti_InputSchema = \<lparr>schema_Type = ''object'',
         Properties = [(''agent'', \<lparr>prop_Type = ''string'',
                                    prop_Description = ''Name of the agent to invoke'',
                                    Enum = agentNames\<rparr>),
                       string_property ''input'' ''Input prompt for the agent''],
         Required = [''agent'', ''input'']\<rparr>\<rparr>,
      \<lparr>ti_Name = ''invoke_parallel'',
       ti_Description = ''Invoke multiple agents in parallel with the same input'',
       ti_InputSchema = \<lparr>schema_Type = ''object'',
         Properties = [string_property ''agents'' ''Comma-separated list of agent names'',
                       string_property ''input'' ''Input prompt for all agents''],
         Required = [''agents'', ''input'']\<rparr>\<rparr>,
      \<lparr>ti_Name = ''list_agents'',
       ti_Description = ''List all available agents and their descriptions'',
       ti_InputSchema = \<lparr>schema_Type = ''object'', Properties = [], Required = []\<rparr>\<rparr>]
     @
     [\<lparr>ti_Name = ''read_file'',
       ti_Description = ''Read the contents of a file in the workspace'',
       ti_InputSchema = \<lparr>schema_Type = ''object'',
         Properties = [string_property ''path'' ''Path to the file (relative to workspace)''],
         Required = [''path'']\<rparr>\<rparr>,
      \<lparr>ti_Name = ''glob_files'',
       ti_Description = ''Find files matching a glob pattern'',
       ti_InputSchema = \<lparr>schema_Type = ''object'',
         Properties = [string_property ''pattern'' ''Glob pattern (e.g., '**/*.go')''],
         Required = [''pattern'']\<rparr>\<rparr>,
      \<lparr>ti_Name = ''grep_files'',
       ti_Description = ''Search for a pattern in files'',
       ti_InputSchema = \<lparr>schema_Type = ''object'',
         Properties = [string_property ''pattern'' ''Regex pattern to search for'',
                       string_property ''file_pattern'' ''Optional file name pattern filter''],
         Required = [''pattern'']\<rparr>\<rparr>,
      \<lparr>ti_Name = ''run_command'',
       ti_Description = ''Execute a shell command in the workspace'',
       ti_InputSchema = \<lparr>schema_Type = ''object'',
         Properties = [string_property ''command'' ''Shell command to execute''],
         Required = [''command'']\<rparr>\<rparr>]"

definition handleToolsList :: "'w Backend \<Rightarrow> Request \<Rightarrow> 'w \<Rightarrow> Response" where
  "handleToolsList be req w =
     \<lparr>resp_JSONRPC = ''2.0'', resp_ID = req_ID req,
      resp_Result = Some (ListToolsRes (tool_catalog (ListAgents be w))),
      resp_Error = None\<rparr>"

definition handleResourcesList :: "Request \<Rightarrow> Response" where
  "handleResourcesList req =
     \<lparr>resp_JSONRPC = ''2.0'', resp_ID = req_ID req,
      resp_Result = Some (ListResourcesRes []), resp_Error = None\<rparr>"

definition handleResourcesRead :: "Request \<Rightarrow> Response" where
  "handleResourcesRead req =
     errorResponse (req_ID req) ErrMethodNotFound ''Resources not supported'' None"

definition handlePromptsList :: "Request \<Rightarrow> Response" where
  "handlePromptsList req =
     \<lparr>resp_JSONRPC = ''2.0'', resp_ID = req_ID req,
      resp_Result = Some (ListPromptsRes []), resp_Error = None\<rparr>"

definition handlePromptsGet :: "Request \<Rightarrow> Response" where
  "handlePromptsGet req =
     errorResponse (req_ID req) ErrMethodNotFound ''Prompts not supported'' None"

text \<open>\<open>handleRequest\<close>: \<open>None\<close> is the nil response of a notification.\<close>

definition handleRequest ::
  "'w Backend \<Rightarrow> Server \<Rightarrow> Request \<Rightarrow> 'w \<Rightarrow> Response option \<times> Server \<times> 'w" where
  "handleRequest be s req w =
     (if Method req = ''initialize'' then
        (case handleInitialize s req of (resp, s') \<Rightarrow> (Some resp, s', w))
      else if Method req = ''initialized'' then (None, s, w)
      else if Method req = ''tools/list'' then (Some (handleToolsList be req w), s, w)
      else if Method req = ''tools/call'' then
        (case handleToolsCall be req w of (resp, w') \<Rightarrow> (Some resp, s, w'))
      else if Method req = ''resources/list'' then (Some (handleResourcesList req), s, w)
      else if Method req = ''resources/read'' then (Some (handleResourcesRead req), s, w)
      else if Method req = ''prompts/list'' then (Some (handlePromptsList req), s, w)
      else if Method req = ''prompts/get'' then (Some (handlePromptsGet req), s, w)
      else (Some (errorResponse (req_ID req) ErrMethodNotFound ''Method not found'' None), s, w))"

text \<open>
  The writer is the list of responses written so far, one line each;
  \<open>writeResponse\<close> appends to it. A response that cannot be marshalled or written
  is only logged by the source and is not modelled.
\<close>

definition writeResponse :: "Response list \<Rightarrow> Response \<Rightarrow> Response list" where
  "writeResponse out resp = out @ [resp]"

definition writeError ::
  "Response list \<Rightarrow> RawMessage \<Rightarrow> int \<Rightarrow> string \<Rightarrow> error option \<Rightarrow> Response list" where
  "writeError out rid code message data =
     writeResponse out (errorResponse rid code message data)"

text \<open>
  \<open>serve\<close>: the scanner yields the lines of the input one after the other and then
  stops, and \<open>scanner.Err()\<close> is \<open>scanErr\<close> (nil at the end of the input, an error
  when a line is longer than the buffer or the reader fails). The result is the error
  returned, the server, the responses written and the world.
\<close>

fun serve ::
  "'w Backend \<Rightarrow> Server \<Rightarrow> string list \<Rightarrow> error option \<Rightarrow> Response list \<Rightarrow> 'w
   \<Rightarrow> error option \<times> Server \<times> Response list \<times> 'w" where
  "serve be s [] scanErr out w = (scanErr, s, out, w)"
| "serve be s (line # rest) scanErr out w =
     (if ctx_Done be w then (Some (ctx_Err be w), s, out, w)
      else if line = '''' then serve be s rest scanErr out w
      else
        (case json_Unmarshal be line of
           Inl err \<Rightarrow>
             serve be s rest scanErr
               (writeError out None ErrParseError ''Parse error'' (Some err)) w
         | Inr req \<Rightarrow>
             (case handleRequest be s req w of
                (None, s', w') \<Rightarrow> serve be s' rest scanErr out w'
              | (Some resp, s', w') \<Rightarrow>
                  serve be s' rest scanErr (writeResponse out resp) w')))"

section \<open>Building the runner (platforms/local/config.go, agent.go, tools.go, runner.go)\<close>

text \<open>
  The configuration, as far as the construction of the agents reads it.
\<close>

record AgentConfig =
  cfg_Name :: string
  cfg_Description :: string
  cfg_Instructions :: string
  cfg_Tools :: "string list"
  cfg_Model :: string
  cfg_MaxTokens :: int

record Config =
  Mode :: string
  Workspace :: string
  Agents :: "AgentConfig list"

definition HasSuffix :: "string \<Rightarrow> string \<Rightarrow> bool" where
  "HasSuffix s suffix =
     (length suffix \<le> length s \<and> drop (length s - length suffix) s = suffix)"

text \<open>
  \<open>CreateTools\<close> makes one tool per name, in order, and stops at the first unknown
  name. The \<open>Execute\<close> methods of the five tool types, bound to the tool set, are
  the argument \<open>execute\<close>.
\<close>

fun CreateTools ::
  "(string \<Rightarrow> 'a \<Rightarrow> 'w \<Rightarrow> (error + 'v) \<times> 'w) \<Rightarrow> string list \<Rightarrow> ('a, 'v, 'w) Tool list
   \<Rightarrow> error + ('a, 'v, 'w) Tool list" where
  "CreateTools execute [] created = Inr created"
| "CreateTools execute (nm # names) created =
     (if nm = ''read'' then
        CreateTools execute names
          (created @ [\<lparr>tool_Name = ''read'', tool_Description = ''Read the contents of a file'',
                        Execute = execute ''read''\<rparr>])
      else if nm = ''write'' then
        CreateTools execute names
          (created @ [\<lparr>tool_Name = ''write'', tool_Description = ''Write content to a file'',
                        Execute = execute ''write''\<rparr>])
      else if nm = ''glob'' then
        CreateTools execute names
          (created @ [\<lparr>tool_Name = ''glob'',
                        tool_Description = ''Find files matching a glob pattern'',
                        Execute = execute ''glob''\<rparr>])
      else if nm = ''grep'' then
        CreateTools execute names
          (created @ [\<lparr>tool_Name = ''grep'', tool_Description = ''Search for a pattern in files'',
                        Execute = execute ''grep''\<rparr>])
      else if nm = ''shell'' then
        CreateTools execute names
          (created @ [\<lparr>tool_Name = ''shell'', tool_Description = ''Execute a shell command'',
                        Execute = execute ''shell''\<rparr>])
      else Inl (New (''unknown tool: '' @ nm)))"

text \<open>
  \<open>NewEmbeddedAgent\<close>: instructions ending in \<open>.md\<close> are read from that file,
  or from the same path under the workspace when the first read fails.
\<close>

definition load_instructions :: "OS \<Rightarrow> ToolSet \<Rightarrow> AgentConfig \<Rightarrow> error + string" where
  "load_instructions os toolSet cfg =
     (if HasSuffix (cfg_Instructions cfg) ''.md'' then
        (case os_ReadFile os (cfg_Instructions cfg) of
           Inr content \<Rightarrow> Inr content
         | Inl err \<Rightarrow>
             (case os_ReadFile os (Join [workspace toolSet, cfg_Instructions cfg]) of
                Inl err' \<Rightarrow> Inl (Wrap ''failed to load instructions'' err')
              | Inr content \<Rightarrow> Inr content))
      else Inr (cfg_Instructions cfg))"

definition NewEmbeddedAgent ::
  "OS \<Rightarrow> (string \<Rightarrow> 'a \<Rightarrow> 'w \<Rightarrow> (error + 'v) \<times> 'w) \<Rightarrow> AgentConfig \<Rightarrow> ToolSet
   \<Rightarrow> ('a, 'w) LLMClient \<Rightarrow> error + ('a, 'v, 'w) EmbeddedAgent" where
  "NewEmbeddedAgent os execute cfg toolSet client =
     (case load_instructions os toolSet cfg of
        Inl err \<Rightarrow> Inl err
      | Inr text \<Rightarrow>
          (case CreateTools execute (cfg_Tools cfg) [] of
             Inl err \<Rightarrow> Inl (Wrap ''failed to create tools'' err)
           | Inr created \<Rightarrow>
               Inr \<lparr>name = cfg_Name cfg, description = cfg_Description cfg,
                    instructions = text, tools = created, llm = client,
                    maxTokens = (if cfg_MaxTokens cfg = 0 then 4096 else cfg_MaxTokens cfg)\<rparr>))"

text \<open>
  The loop of \<open>NewRunner\<close> over \<open>cfg.Agents\<close>, and \<open>NewRunner\<close> itself.
  \<open>Config.Validate\<close> is the argument \<open>validate\<close>; it returns the checked
  configuration, in which the workspace has been made absolute.
\<close>

fun register_agents ::
  "OS \<Rightarrow> (string \<Rightarrow> 'a \<Rightarrow> 'w \<Rightarrow> (error + 'v) \<times> 'w) \<Rightarrow> ToolSet \<Rightarrow> ('a, 'w) LLMClient
   \<Rightarrow> AgentConfig list \<Rightarrow> (string \<rightharpoonup> ('a, 'v, 'w) EmbeddedAgent)
   \<Rightarrow> error + (string \<rightharpoonup> ('a, 'v, 'w) EmbeddedAgent)" where
  "register_agents os execute toolSet client [] registry = Inr registry"
| "register_agents os execute toolSet client (agentCfg # rest) registry =
     (case NewEmbeddedAgent os execute agentCfg toolSet client of
        Inl err \<Rightarrow> Inl (Wrap (''failed to create agent '' @ cfg_Name agentCfg) err)
      | Inr agent \<Rightarrow>
          register_agents os execute toolSet client rest
            (registry(cfg_Name agentCfg \<mapsto> agent)))"

definition NewRunner ::
  "(Config \<Rightarrow> error + Config) \<Rightarrow> OS \<Rightarrow> (string \<Rightarrow> 'a \<Rightarrow> 'w \<Rightarrow> (error + 'v) \<times> 'w)
   \<Rightarrow> Config \<Rightarrow> ('a, 'w) LLMClient \<Rightarrow> error + ('a, 'v, 'w) Runner" where
  "NewRunner validate os execute cfg client =
     (case validate cfg of
        Inl err \<Rightarrow> Inl (Wrap ''invalid config'' err)
      | Inr cfg' \<Rightarrow>
          (case register_agents os execute (NewToolSet (Workspace cfg')) client
                  (Agents cfg') Map.empty of
             Inl err \<Rightarrow> Inl err
           | Inr registry \<Rightarrow> Inr \<lparr>agents = registry\<rparr>))"

section \<open>Observing a run\<close>

text \<open>
  The source keeps no count of the calls of \<open>Complete\<close>. To state how many
  there are, the agent is run in a world extended by a counter: \<open>count_llm\<close> is the
  same client that also increments the counter on every call, \<open>lift_tool\<close> is
  the same tool that leaves the counter alone, and \<open>counting_agent\<close> is the same
  agent built from them.
\<close>

definition count_llm :: "('a, 'w) LLMClient \<Rightarrow> ('a, nat \<times> 'w) LLMClient" where
  "count_llm client messages toolDefs st =
     (case st of (n, w) \<Rightarrow>
        (case client messages toolDefs w of (res, w') \<Rightarrow> (res, (Suc n, w'))))"

definition lift_tool :: "('a, 'v, 'w) Tool \<Rightarrow> ('a, 'v, nat \<times> 'w) Tool" where
  "lift_tool t =
     \<lparr>tool_Name = tool_Name t, tool_Description = tool_Description t,
      Execute = (\<lambda>args st. case st of (n, w) \<Rightarrow>
                   (case Execute t args w of (res, w') \<Rightarrow> (res, (n, w'))))\<rparr>"

definition counting_agent ::
  "('a, 'v, 'w) EmbeddedAgent \<Rightarrow> ('a, 'v, nat \<times> 'w) EmbeddedAgent" where
  "counting_agent a =
     \<lparr>name = name a, description = description a, instructions = instructions a,
      tools = map lift_tool (tools a), llm = count_llm (llm a), maxTokens = maxTokens a\<rparr>"

text \<open>The result of \<open>Invoke\<close> after the loop has run out of iterations.\<close>

definition ceiling_result :: "string \<Rightarrow> string \<Rightarrow> AgentResult" where
  "ceiling_result nm input =
     \<lparr>Agent = nm, Input = input, Output = ''Max iterations reached'',
      Success = False, Error = ''agent loop exceeded maximum iterations''\<rparr>"

text \<open>A client that never fails, never signals completion and always asks for a tool.\<close>

definition always_calls_tools :: "('a, 'w) LLMClient \<Rightarrow> bool" where
  "always_calls_tools client =
     (\<forall>messages toolDefs w. \<exists>resp w'.
        client messages toolDefs w = (Inr resp, w') \<and> ToolCalls resp \<noteq> [] \<and> \<not> Done resp)"

text \<open>An agent without tools whose client asks for the tool \<open>read\<close> on every call.\<close>

definition looping_agent :: "(unit, unit, unit) EmbeddedAgent" where
  "looping_agent =
     \<lparr>name = ''looper'', description = '''', instructions = ''be brief'', tools = [],
      llm = (\<lambda>messages toolDefs w.
               (Inr \<lparr>resp_Content = ''again'',
                     ToolCalls = [\<lparr>ID = ''1'', call_Name = ''read'', Arguments = ()\<rparr>],
                     Done = False\<rparr>, w)),
      maxTokens = 4096\<rparr>"

section \<open>Notions used in the statements\<close>

text \<open>
  The two messages \<open>Invoke\<close> starts from, the assistant message it appends for a
  response with tool calls, and the tool message that reports an unknown tool.
\<close>

definition initial_messages :: "('a, 'v, 'w) EmbeddedAgent \<Rightarrow> string \<Rightarrow> Message list" where
  "initial_messages a input =
     [\<lparr>Role = ''system'', Content = instructions a, Name = '''', ToolID = ''''\<rparr>,
      \<lparr>Role = ''user'', Content = input, Name = '''', ToolID = ''''\<rparr>]"

definition assistant_message :: "'a CompletionResponse \<Rightarrow> Message" where
  "assistant_message resp =
     \<lparr>Role = ''assistant'', Content = resp_Content resp, Name = '''', ToolID = ''''\<rparr>"

definition unknown_tool_message :: "'a ToolCall \<Rightarrow> Message" where
  "unknown_tool_message tc =
     \<lparr>Role = ''tool'', Content = ''Error: unknown tool: '' @ call_Name tc,
      Name = call_Name tc, ToolID = ID tc\<rparr>"

text \<open>
  Every agent is registered under its own name.
\<close>

definition registry_named :: "('a, 'v, 'w) Runner \<Rightarrow> bool" where
  "registry_named r = (\<forall>k a. agents r k = Some a \<longrightarrow> name a = k)"

text \<open>
  The slot that the goroutine of \<open>InvokeParallel\<close> fills for a task when it runs
  in the world \<open>w\<close>.
\<close>

definition slot_of ::
  "('v \<Rightarrow> string) \<Rightarrow> ('a, 'v, 'w) Runner \<Rightarrow> AgentTask \<Rightarrow> 'w \<Rightarrow> AgentResult" where
  "slot_of marshal r t w =
     (case Runner_Invoke marshal r (task_Agent t) (task_Input t) w of
        (Inl err, w') \<Rightarrow> failed_result t err
      | (Inr result, w') \<Rightarrow> result)"

text \<open>
  The context block of \<open>InvokeSequential\<close> after a list of finished tasks: the
  entries of the successful ones, in order.
\<close>

definition context_of :: "(AgentTask \<times> AgentResult) list \<Rightarrow> string" where
  "context_of finished =
     concat (map (\<lambda>(t, res). if Success res then context_entry t res else '''') finished)"

section \<open>Example values\<close>

text \<open>
  Small agents, a runner, a shell, a file system and a decoder, used to evaluate the
  model at concrete inputs.
\<close>

definition failing_agent :: "(unit, unit, unit) EmbeddedAgent" where
  "failing_agent =
     \<lparr>name = ''reviewer'', description = '''', instructions = ''review the change'', tools = [],
      llm = (\<lambda>messages toolDefs w. (Inl (New ''connection refused''), w)),
      maxTokens = 4096\<rparr>"

definition read_stub :: "(unit, string, unit) Tool" where
  "read_stub = \<lparr>tool_Name = ''read'', tool_Description = ''Read the contents of a file'',
                 Execute = (\<lambda>args w. (Inr ''hello'', w))\<rparr>"

definition confused_response :: "unit CompletionResponse" where
  "confused_response =
     \<lparr>resp_Content = ''let me look'',
      ToolCalls = [\<lparr>ID = ''c1'', call_Name = ''read'', Arguments = ()\<rparr>,
                   \<lparr>ID = ''c2'', call_Name = ''search'', Arguments = ()\<rparr>],
      Done = False\<rparr>"

definition confused_agent :: "(unit, string, unit) EmbeddedAgent" where
  "confused_agent =
     \<lparr>name = ''scout'', description = '''', instructions = ''find the file'',
      tools = [read_stub],
      llm = (\<lambda>messages toolDefs w. (Inr confused_response, w)),
      maxTokens = 4096\<rparr>"

definition planner_agent :: "(unit, unit, unit) EmbeddedAgent" where
  "planner_agent =
     \<lparr>name = ''planner'', description = '''', instructions = ''plan the work'', tools = [],
      llm = (\<lambda>messages toolDefs w.
               (Inr \<lparr>resp_Content = ''use a queue'', ToolCalls = [], Done = True\<rparr>, w)),
      maxTokens = 4096\<rparr>"

definition team :: "(unit, unit, unit) Runner" where
  "team = \<lparr>agents = [''planner'' \<mapsto> planner_agent]\<rparr>"

definition team_config :: Config where
  "team_config =
     \<lparr>Mode = ''local'', Workspace = ''/ws'',
      Agents = [\<lparr>cfg_Name = ''planner'', cfg_Description = '''',
                 cfg_Instructions = ''plan the work'', cfg_Tools = [], cfg_Model = '''',
                 cfg_MaxTokens = 0\<rparr>]\<rparr>"

definition team_tasks :: "AgentTask list" where
  "team_tasks =
     [\<lparr>task_Agent = ''planner'', task_Input = ''design''\<rparr>,
      \<lparr>task_Agent = ''ghost'', task_Input = ''haunt''\<rparr>,
      \<lparr>task_Agent = ''planner'', task_Input = ''build''\<rparr>]"

definition team_context :: string where
  "team_context = [CHR 0x0A] @ ''[planner]: use a queue'' @ [CHR 0x0A]"

definition team_steps :: "(string \<times> AgentResult) list" where
  "team_steps =
     [(''design'',
       \<lparr>Agent = ''planner'', Input = ''design'', Output = ''use a queue'', Success = True,
        Error = ''''\<rparr>),
      (''Previous context:'' @ [CHR 0x0A] @ team_context @ [CHR 0x0A, CHR 0x0A]
         @ ''Current task:'' @ [CHR 0x0A] @ ''haunt'',
       \<lparr>Agent = ''ghost'', Input = ''haunt'', Output = '''', Success = False,
        Error = ''agent not found: ghost''\<rparr>),
      (''Previous context:'' @ [CHR 0x0A] @ team_context @ [CHR 0x0A, CHR 0x0A]
         @ ''Current task:'' @ [CHR 0x0A] @ ''build'',
       \<lparr>Agent = ''planner'',
        Input = ''Previous context:'' @ [CHR 0x0A] @ team_context @ [CHR 0x0A, CHR 0x0A]
                  @ ''Current task:'' @ [CHR 0x0A] @ ''build'',
        Output = ''use a queue'', Success = True, Error = ''''\<rparr>)]"

definition failing_shell :: "string \<Rightarrow> string list \<Rightarrow> string \<Rightarrow> unit \<Rightarrow> RunOutcome \<times> unit" where
  "failing_shell command args dir w =
     (\<lparr>run_stdout = ''in '' @ dir, run_stderr = ''no such file'',
       run_err = Some (ExitError 2)\<rparr>, w)"

definition plain_os :: OS where
  "plain_os = \<lparr>Getwd = Inr ''/home/dev'',
                Stat = (\<lambda>p. if p = ''/ws/a.txt'' then Inr \<lparr>IsDir = False, Size = 5\<rparr>
                             else if p = ''/ws/src'' then Inr \<lparr>IsDir = True, Size = 4096\<rparr>
                             else if p = ''/ws/big.bin'' then Inr \<lparr>IsDir = False, Size = 10485761\<rparr>
                             else Inl (New ''no such file or directory'')),
                os_ReadFile = (\<lambda>p. if p = ''/ws/a.txt'' then Inr ''hello''
                                    else Inl (New ''no such file or directory''))\<rparr>"

definition tools_list_line :: string where
  \<open>tools_list_line = ''{"jsonrpc":"2.0","id":7,"method":"tools/list"}''\<close>

definition one_request_decoder :: "string \<Rightarrow> error + Request" where
  "one_request_decoder line =
     (if line = tools_list_line then
        Inr \<lparr>req_JSONRPC = ''2.0'', req_ID = Some ''7'', Method = ''tools/list'', Params = None\<rparr>
      else if line = '''' then Inl (New ''unexpected end of JSON input'')
      else Inl (New ''invalid character in request''))"

definition stdio_backend :: "unit Backend" where
  "stdio_backend =
     \<lparr>ctx_Done = (\<lambda>w. False), ctx_Err = (\<lambda>w. New ''context canceled''),
      json_Unmarshal = one_request_decoder,
      ListAgents = (\<lambda>w. [''planner'']),
      handleToolsCall = (\<lambda>req w. (errorResponse (req_ID req) ErrMethodNotFound ''Unknown tool'' None, w))\<rparr>"

definition fresh_server :: Server where
  "fresh_server = \<lparr>serverInfo = \<lparr>si_Name = ''agentkit-local'', si_Version = ''1.0.0''\<rparr>,
                    initialized = False\<rparr>"

section \<open>Properties of the agent loop\<close>

subsection \<open>The counter of completion rounds does not change the run\<close>

lemma counting_agent_sel [simp]:
  "name (counting_agent a) = name a"
  "instructions (counting_agent a) = instructions a"
  "tools (counting_agent a) = map lift_tool (tools a)"
  "llm (counting_agent a) = count_llm (llm a)"
  by (simp_all add: counting_agent_def)

lemma buildToolDefinitions_counting [simp]:
  "buildToolDefinitions (counting_agent a) = buildToolDefinitions a"
  by (simp add: buildToolDefinitions_def lift_tool_def)

lemma executeTool_lift:
  "executeTool (map lift_tool ts) tc (n, w)
     = (case executeTool ts tc w of (res, w') \<Rightarrow> (res, (n, w')))"
  by (induction ts) (simp_all add: lift_tool_def)

lemma executeToolCalls_lift:
  "executeToolCalls marshal (map lift_tool ts) tcs messages (n, w)
     = (case executeToolCalls marshal ts tcs messages w of
          (messages', w') \<Rightarrow> (messages', (n, w')))"
proof (induction tcs arbitrary: messages w)
  case Nil
  show ?case by simp
next
  case (Cons tc tcs)
  obtain res w1 where e: "executeTool ts tc w = (res, w1)" by fastforce
  show ?case by (simp add: executeTool_lift e Cons Let_def)
qed

lemma counting_agent_simulates:
  "\<exists>k. agent_loop marshal (counting_agent a) input toolDefs i messages (n, w)
        = (case agent_loop marshal a input toolDefs i messages w of
             (res, w') \<Rightarrow> (res, (n + k, w')))"
proof (induction "maxIterations - i" arbitrary: i messages n w)
  case 0
  then have "\<not> i < maxIterations" by simp
  then have "agent_loop marshal (counting_agent a) input toolDefs i messages (n, w)
        = (case agent_loop marshal a input toolDefs i messages w of
             (res, w') \<Rightarrow> (res, (n + 0, w')))"
    by (simp add: agent_loop.simps [of _ _ _ _ i])
  then show ?case by blast
next
  case (Suc j)
  then have lt: "i < maxIterations" by simp
  have j: "j = maxIterations - Suc i" using Suc.hyps(2) by simp
  obtain r w1 where c: "llm a messages toolDefs w = (r, w1)" by fastforce
  show ?case
  proof (cases r)
    case (Inl err)
    have "agent_loop marshal (counting_agent a) input toolDefs i messages (n, w)
        = (case agent_loop marshal a input toolDefs i messages w of
             (res, w') \<Rightarrow> (res, (n + 1, w')))"
      by (simp add: agent_loop.simps [of _ _ _ _ i] lt count_llm_def c Inl)
    then show ?thesis by blast
  next
    case (Inr resp)
    show ?thesis
    proof (cases "ToolCalls resp = [] \<or> Done resp")
      case True
      have "agent_loop marshal (counting_agent a) input toolDefs i messages (n, w)
          = (case agent_loop marshal a input toolDefs i messages w of
               (res, w') \<Rightarrow> (res, (n + 1, w')))"
        using True
        by (simp add: agent_loop.simps [of _ _ _ _ i] lt count_llm_def c Inr)
      then show ?thesis by blast
    next
      case False
      let ?m = "messages @ [\<lparr>Role = ''assistant'', Content = resp_Content resp,
                             Name = '''', ToolID = ''''\<rparr>]"
      obtain messages' w2 where
        e: "executeToolCalls marshal (tools a) (ToolCalls resp) ?m w1 = (messages', w2)"
        by fastforce
      obtain k where
        ih: "agent_loop marshal (counting_agent a) input toolDefs (Suc i) messages' (Suc n, w2)
              = (case agent_loop marshal a input toolDefs (Suc i) messages' w2 of
                   (res, w') \<Rightarrow> (res, (Suc n + k, w')))"
        using Suc.hyps(1) [OF j, of messages' "Suc n" w2] by blast
      have l: "agent_loop marshal (counting_agent a) input toolDefs i messages (n, w)
            = agent_loop marshal (counting_agent a) input toolDefs (Suc i) messages' (Suc n, w2)"
        using False
        by (simp add: agent_loop.simps [of _ _ _ _ i] lt count_llm_def c Inr
              executeToolCalls_lift e)
      have p: "agent_loop marshal a input toolDefs i messages w
            = agent_loop marshal a input toolDefs (Suc i) messages' w2"
        using False by (simp add: agent_loop.simps [of _ _ _ _ i] lt c Inr e)
      have "agent_loop marshal (counting_agent a) input toolDefs i messages (n, w)
          = (case agent_loop marshal a input toolDefs i messages w of
               (res, w') \<Rightarrow> (res, (n + Suc k, w')))"
        by (simp add: l p ih)
      then show ?thesis by blast
    qed
  qed
qed

lemma executeTool_lift_counter:
  "\<exists>res w'. executeTool (map lift_tool ts) tc (n, w) = (res, (n, w'))"
  by (simp add: executeTool_lift split: prod.splits)

lemma executeToolCalls_lift_counter:
  "\<exists>messages' w'. executeToolCalls marshal (map lift_tool ts) tcs messages (n, w)
      = (messages', (n, w'))"
  by (simp add: executeToolCalls_lift split: prod.splits)

subsection \<open>The iteration ceiling\<close>

lemma counting_loop_runs_to_ceiling:
  assumes "always_calls_tools (llm a)"
  shows "i \<le> maxIterations \<Longrightarrow>
         \<exists>w'. agent_loop marshal (counting_agent a) input toolDefs i messages (n, w)
            = (Inr (ceiling_result (name a) input), (n + (maxIterations - i), w'))"
proof (induction "maxIterations - i" arbitrary: i messages n w)
  case 0
  then have "\<not> i < maxIterations" by simp
  then show ?case
    by (subst agent_loop.simps) (simp add: ceiling_result_def)
next
  case (Suc k)
  then have lt: "i < maxIterations" by simp
  obtain resp w1 where c: "llm a messages toolDefs w = (Inr resp, w1)"
      and tc: "ToolCalls resp \<noteq> []" and nd: "\<not> Done resp"
    using assms unfolding always_calls_tools_def by blast
  let ?m = "messages @ [\<lparr>Role = ''assistant'', Content = resp_Content resp,
                         Name = '''', ToolID = ''''\<rparr>]"
  from executeToolCalls_lift_counter [of marshal "tools a" "ToolCalls resp" ?m "Suc n" w1]
  obtain messages' w2 where
    e: "executeToolCalls marshal (map lift_tool (tools a)) (ToolCalls resp) ?m (Suc n, w1)
          = (messages', (Suc n, w2))"
    by (elim exE)
  have k: "k = maxIterations - Suc i" using Suc.hyps(2) by simp
  have le: "Suc i \<le> maxIterations" using lt by simp
  obtain w' where
    r: "agent_loop marshal (counting_agent a) input toolDefs (Suc i) messages' (Suc n, w2)
          = (Inr (ceiling_result (name a) input), (Suc n + (maxIterations - Suc i), w'))"
    using Suc.hyps(1) [OF k le] by blast
  have "agent_loop marshal (counting_agent a) input toolDefs i messages (n, w)
          = agent_loop marshal (counting_agent a) input toolDefs (Suc i) messages' (Suc n, w2)"
    by (subst agent_loop.simps) (simp add: lt count_llm_def c tc nd e)
  with r lt show ?case by (auto simp: )
qed

text \<open>
  Claim C2. Let the client's \<open>Complete\<close> return, on every call, no error and a
  response with at least one tool call and \<open>Done = false\<close>. Then \<open>Invoke\<close>
  returns, for any agent, input and tools: its result is the \<open>AgentResult\<close> with
  \<open>Success = false\<close> and the error text \<open>agent loop exceeded maximum iterations\<close>,
  with a nil error. Run on the same agent with the counter of \<open>Complete\<close> calls
  added to the world, the counter goes from 0 to 10, the iteration ceiling: there are
  exactly ten completion rounds.
\<close>

theorem invoke_stops_at_iteration_ceiling:
  assumes "always_calls_tools (llm a)"
  shows "\<exists>w'. Invoke marshal a input w
              = (Inr \<lparr>Agent = name a, Input = input, Output = ''Max iterations reached'',
                      Success = False, Error = ''agent loop exceeded maximum iterations''\<rparr>, w')
            \<and> Invoke marshal (counting_agent a) input (0, w)
              = (Inr \<lparr>Agent = name a, Input = input, Output = ''Max iterations reached'',
                      Success = False, Error = ''agent loop exceeded maximum iterations''\<rparr>,
                 (10, w'))"
proof -
  let ?defs = "buildToolDefinitions a"
  let ?init = "[\<lparr>Role = ''system'', Content = instructions a, Name = '''', ToolID = ''''\<rparr>,
                \<lparr>Role = ''user'', Content = input, Name = '''', ToolID = ''''\<rparr>]"
  obtain w' where
    c: "agent_loop marshal (counting_agent a) input ?defs 0 ?init (0, w)
          = (Inr (ceiling_result (name a) input), (0 + (maxIterations - 0), w'))"
    using counting_loop_runs_to_ceiling [OF assms, of 0 marshal input ?defs ?init 0 w] by auto
  obtain k where
    s: "agent_loop marshal (counting_agent a) input ?defs 0 ?init (0, w)
          = (case agent_loop marshal a input ?defs 0 ?init w of
               (res, w') \<Rightarrow> (res, (0 + k, w')))"
    using counting_agent_simulates [of marshal a input ?defs 0 ?init 0 w] by blast
  have p: "agent_loop marshal a input ?defs 0 ?init w = (Inr (ceiling_result (name a) input), w')"
    using c s by (auto split: prod.splits)
  show ?thesis
    using c p by (auto simp: Invoke_def ceiling_result_def maxIterations_def)
qed

theorem invoke_stops_at_iteration_ceiling_witness:
  "always_calls_tools (llm looping_agent)
   \<and> (\<exists>w'. Invoke (\<lambda>v. '''') looping_agent ''go'' ()
              = (Inr \<lparr>Agent = ''looper'', Input = ''go'', Output = ''Max iterations reached'',
                      Success = False, Error = ''agent loop exceeded maximum iterations''\<rparr>, w')
            \<and> Invoke (\<lambda>v. '''') (counting_agent looping_agent) ''go'' (0, ())
              = (Inr \<lparr>Agent = ''looper'', Input = ''go'', Output = ''Max iterations reached'',
                      Success = False, Error = ''agent loop exceeded maximum iterations''\<rparr>,
                 (10, w')))"
proof -
  have h: "always_calls_tools (llm looping_agent)"
    by (simp add: always_calls_tools_def looping_agent_def)
  have n: "name looping_agent = ''looper''" by (simp add: looping_agent_def)
  from invoke_stops_at_iteration_ceiling [OF h, of "\<lambda>v. ''''" "''go''" "()"] h n
  show ?thesis by simp
qed

subsection \<open>A failing completion\<close>

lemma Invoke_initial:
  "Invoke marshal a input w
     = agent_loop marshal a input (buildToolDefinitions a) 0 (initial_messages a input) w"
  by (simp add: Invoke_def initial_messages_def)

lemma agent_loop_llm_error:
  "i < maxIterations \<Longrightarrow> llm a messages toolDefs w = (Inl err, w') \<Longrightarrow>
   agent_loop marshal a input toolDefs i messages w
     = (Inl (Wrap ''LLM completion failed'' err), w')"
  by (simp add: agent_loop.simps [of _ _ _ _ i])

lemma Invoke_llm_error:
  "llm a (initial_messages a input) (buildToolDefinitions a) w = (Inl err, w') \<Longrightarrow>
   Invoke marshal a input w = (Inl (Wrap ''LLM completion failed'' err), w')"
  by (simp add: Invoke_initial agent_loop_llm_error maxIterations_def)

text \<open>
  Claim C5, as stated, fails: an agent whose client returns the error
  \<open>connection refused\<close> makes \<open>EmbeddedAgent.Invoke\<close> return that error, wrapped,
  and no \<open>AgentResult\<close>; \<open>Runner.Invoke\<close> wraps it once more and returns it as its
  error.
\<close>

theorem llm_failure_not_folded_counterexample:
  "Invoke (\<lambda>v. '''') failing_agent ''go'' ()
     = (Inl (Wrap ''LLM completion failed'' (New ''connection refused'')), ())
   \<and> Runner_Invoke (\<lambda>v. '''') \<lparr>agents = [''reviewer'' \<mapsto> failing_agent]\<rparr> ''reviewer'' ''go'' ()
     = (Inl (Wrap ''agent invocation failed''
          (Wrap ''LLM completion failed'' (New ''connection refused''))), ())"
  by (simp add: Runner_Invoke_def Invoke_llm_error failing_agent_def)

text \<open>
  Claim C5, amended. When a call of \<open>Complete\<close> returns an error in any round of
  the loop, the loop stops and returns the error \<open>LLM completion failed: ...\<close>
  with no \<open>AgentResult\<close>. When this happens in the first round,
  \<open>EmbeddedAgent.Invoke\<close> returns that error, \<open>Runner.Invoke\<close> returns it wrapped as
  \<open>agent invocation failed: ...\<close>, and only \<open>InvokeSequential\<close> and
  \<open>InvokeParallel\<close> fold it into an \<open>AgentResult\<close> with \<open>Success = false\<close>
  and the message as \<open>Error\<close>.
\<close>

theorem llm_failure_is_an_error_return:
  "(i < maxIterations \<and> llm a messages toolDefs w = (Inl err, w') \<longrightarrow>
      agent_loop marshal a input toolDefs i messages w
        = (Inl (Wrap ''LLM completion failed'' err), w'))
   \<and> (agents r nm = Some a
        \<and> llm a (initial_messages a input) (buildToolDefinitions a) w = (Inl err, w') \<longrightarrow>
      Invoke marshal a input w = (Inl (Wrap ''LLM completion failed'' err), w')
      \<and> Runner_Invoke marshal r nm input w
          = (Inl (Wrap ''agent invocation failed'' (Wrap ''LLM completion failed'' err)), w')
      \<and> InvokeSequential marshal r [\<lparr>task_Agent = nm, task_Input = input\<rparr>] w
          = (Inr [\<lparr>Agent = nm, Input = input, Output = '''', Success = False,
                   Error = ''agent invocation failed: LLM completion failed: ''
                             @ error_string err\<rparr>], w')
      \<and> InvokeParallel marshal r [\<lparr>task_Agent = nm, task_Input = input\<rparr>] [0] w
          = (Inr [Some \<lparr>Agent = nm, Input = input, Output = '''', Success = False,
                   Error = ''agent invocation failed: LLM completion failed: ''
                             @ error_string err\<rparr>], w'))"
  by (simp add: agent_loop_llm_error Invoke_llm_error Runner_Invoke_def InvokeSequential_def
        InvokeParallel_def parallel_worker_def failed_result_def effective_input_def)

theorem llm_failure_is_an_error_return_witness:
  "(0 < maxIterations
      \<and> llm failing_agent [] [] () = (Inl (New ''connection refused''), ())
      \<and> agent_loop (\<lambda>v. '''') failing_agent ''go'' [] 0 [] ()
          = (Inl (Wrap ''LLM completion failed'' (New ''connection refused'')), ()))
   \<and> ([''reviewer'' \<mapsto> failing_agent] ''reviewer'' = Some failing_agent
      \<and> InvokeSequential (\<lambda>v. '''') \<lparr>agents = [''reviewer'' \<mapsto> failing_agent]\<rparr>
            [\<lparr>task_Agent = ''reviewer'', task_Input = ''go''\<rparr>] ()
          = (Inr [\<lparr>Agent = ''reviewer'', Input = ''go'', Output = '''', Success = False,
                   Error = ''agent invocation failed: LLM completion failed: connection refused''\<rparr>],
             ()))"
  using llm_failure_is_an_error_return
          [of 0 failing_agent "[]" "[]" "()" "New ''connection refused''" "()" "\<lambda>v. ''''"
              "''go''" "\<lparr>agents = [''reviewer'' \<mapsto> failing_agent]\<rparr>" "''reviewer''"]
  by (simp add: maxIterations_def failing_agent_def)

subsection \<open>An unknown tool name\<close>

lemma executeTool_unknown:
  "\<forall>tool \<in> set ts. tool_Name tool \<noteq> call_Name tc \<Longrightarrow>
   executeTool ts tc w = (Inl (New (''unknown tool: '' @ call_Name tc)), w)"
  by (induction ts) simp_all

lemma executeToolCalls_append:
  "executeToolCalls marshal ts (xs @ ys) messages w
     = (case executeToolCalls marshal ts xs messages w of
          (messages', w') \<Rightarrow> executeToolCalls marshal ts ys messages' w')"
proof (induction xs arbitrary: messages w)
  case Nil
  show ?case by simp
next
  case (Cons tc xs)
  obtain res w1 where e: "executeTool ts tc w = (res, w1)" by fastforce
  show ?case by (simp add: e Cons Let_def)
qed

lemma executeToolCalls_extends:
  "\<exists>new w'. executeToolCalls marshal ts tcs messages w = (messages @ new, w')
     \<and> length new = length tcs"
proof (induction tcs arbitrary: messages w)
  case Nil
  show ?case by simp
next
  case (Cons tc tcs)
  obtain res w1 where e: "executeTool ts tc w = (res, w1)" by fastforce
  let ?msg = "\<lparr>Role = ''tool'',
                Content = (case res of Inl err \<Rightarrow> ''Error: '' @ error_string err
                                     | Inr result \<Rightarrow> marshal result),
                Name = call_Name tc, ToolID = ID tc\<rparr>"
  from Cons [of "messages @ [?msg]" w1]
  obtain new w' where
    n: "executeToolCalls marshal ts tcs (messages @ [?msg]) w1 = ((messages @ [?msg]) @ new, w')"
       "length new = length tcs"
    by auto
  have "executeToolCalls marshal ts (tc # tcs) messages w = (messages @ (?msg # new), w')"
    by (simp add: e n Let_def)
  moreover have "length (?msg # new) = length (tc # tcs)" by (simp add: n)
  ultimately show ?case by blast
qed

lemma executeToolCalls_unknown:
  assumes "\<forall>tool \<in> set ts. tool_Name tool \<noteq> call_Name tc"
  shows "executeToolCalls marshal ts (tc # post) messages w
           = executeToolCalls marshal ts post (messages @ [unknown_tool_message tc]) w"
  by (simp add: executeTool_unknown [OF assms] unknown_tool_message_def)

text \<open>
  Claim C6. In a round \<open>i\<close> below the ceiling, let the response carry the tool
  calls \<open>pre @ tc # post\<close> and not signal completion, and let no tool of the agent
  have the name of \<open>tc\<close>. Then the calls before \<open>tc\<close> append their messages after
  the assistant message, the call \<open>tc\<close> appends the tool message with the content
  \<open>Error: unknown tool: <name>\<close>, the name and the id of the call, the calls after
  it append theirs, and the loop goes on with round \<open>i + 1\<close> on these messages.
\<close>

theorem unknown_tool_is_reported_and_loop_continues:
  assumes "i < maxIterations"
    and "llm a messages toolDefs w = (Inr resp, w1)"
    and "ToolCalls resp = pre @ tc # post"
    and "\<not> Done resp"
    and "\<forall>tool \<in> set (tools a). tool_Name tool \<noteq> call_Name tc"
  shows "\<exists>earlier w2 later w3.
           executeToolCalls marshal (tools a) pre (messages @ [assistant_message resp]) w1
             = (messages @ [assistant_message resp] @ earlier, w2)
         \<and> length earlier = length pre
         \<and> executeToolCalls marshal (tools a) (tc # post)
               (messages @ [assistant_message resp] @ earlier) w2
             = (messages @ [assistant_message resp] @ earlier
                  @ [unknown_tool_message tc] @ later, w3)
         \<and> length later = length post
         \<and> agent_loop marshal a input toolDefs i messages w
             = agent_loop marshal a input toolDefs (Suc i)
                 (messages @ [assistant_message resp] @ earlier
                    @ [unknown_tool_message tc] @ later) w3"
proof -
  let ?m = "messages @ [assistant_message resp]"
  obtain earlier w2 where
    p: "executeToolCalls marshal (tools a) pre ?m w1 = (?m @ earlier, w2)"
       "length earlier = length pre"
    using executeToolCalls_extends [of marshal "tools a" pre ?m w1] by blast
  obtain later w3 where
    q: "executeToolCalls marshal (tools a) post ((?m @ earlier) @ [unknown_tool_message tc]) w2
          = (((?m @ earlier) @ [unknown_tool_message tc]) @ later, w3)"
       "length later = length post"
    using executeToolCalls_extends
            [of marshal "tools a" post "(?m @ earlier) @ [unknown_tool_message tc]" w2]
    by blast
  have u: "executeToolCalls marshal (tools a) (tc # post) (?m @ earlier) w2
             = (?m @ earlier @ [unknown_tool_message tc] @ later, w3)"
    by (subst executeToolCalls_unknown [OF assms(5)]) (use q(1) in simp)
  have all: "executeToolCalls marshal (tools a) (ToolCalls resp) ?m w1
             = (?m @ earlier @ [unknown_tool_message tc] @ later, w3)"
    using p(1) u by (simp add: assms(3) executeToolCalls_append)
  have ne: "ToolCalls resp \<noteq> []" by (simp add: assms(3))
  have "agent_loop marshal a input toolDefs i messages w
          = agent_loop marshal a input toolDefs (Suc i)
              (?m @ earlier @ [unknown_tool_message tc] @ later) w3"
    using all ne assms(1,2,4)
    by (simp add: agent_loop.simps [of _ _ _ _ i] assistant_message_def)
  with p u q(2) show ?thesis by (metis append.assoc)
qed

theorem unknown_tool_is_reported_and_loop_continues_witness:
  "0 < maxIterations
   \<and> llm confused_agent [] [] () = (Inr confused_response, ())
   \<and> ToolCalls confused_response
       = [\<lparr>ID = ''c1'', call_Name = ''read'', Arguments = ()\<rparr>]
         @ \<lparr>ID = ''c2'', call_Name = ''search'', Arguments = ()\<rparr> # []
   \<and> \<not> Done confused_response
   \<and> (\<forall>tool \<in> set (tools confused_agent). tool_Name tool \<noteq> ''search'')
   \<and> agent_loop id confused_agent ''go'' [] 0 [] ()
       = agent_loop id confused_agent ''go'' [] (Suc 0)
           [\<lparr>Role = ''assistant'', Content = ''let me look'', Name = '''', ToolID = ''''\<rparr>,
            \<lparr>Role = ''tool'', Content = ''hello'', Name = ''read'', ToolID = ''c1''\<rparr>,
            \<lparr>Role = ''tool'', Content = ''Error: unknown tool: search'',
              Name = ''search'', ToolID = ''c2''\<rparr>] ()"
  using unknown_tool_is_reported_and_loop_continues
          [of 0 confused_agent "[]" "[]" "()" confused_response "()"
              "[\<lparr>ID = ''c1'', call_Name = ''read'', Arguments = ()\<rparr>]"
              "\<lparr>ID = ''c2'', call_Name = ''search'', Arguments = ()\<rparr>" "[]" id "''go''"]
  by (simp add: maxIterations_def confused_agent_def confused_response_def read_stub_def
        unknown_tool_message_def assistant_message_def)

section \<open>Properties of the runner\<close>

subsection \<open>Sequential invocation\<close>

lemma context_of_Nil [simp]: "context_of [] = ''''"
  by (simp add: context_of_def)

lemma context_of_Cons:
  "context_of ((t, res) # finished)
     = (if Success res then context_entry t res else '''') @ context_of finished"
  by (simp add: context_of_def)

lemma context_of_append [simp]: "context_of (xs @ ys) = context_of xs @ context_of ys"
  by (simp add: context_of_def)

lemma sequential_loop_inputs:
  "sequential_loop marshal r i tasks contextBuilder w = (steps, w') \<Longrightarrow>
   length steps = length tasks
   \<and> (\<forall>j < length tasks.
         fst (steps ! j)
           = effective_input
               (contextBuilder @ context_of (take j (zip tasks (map snd steps))))
               (i + j) (tasks ! j))"
proof (induction tasks arbitrary: i contextBuilder w steps w')
  case Nil
  then show ?case by simp
next
  case (Cons t rest)
  let ?input = "effective_input contextBuilder i t"
  obtain res w1 where inv: "Runner_Invoke marshal r (task_Agent t) ?input w = (res, w1)"
    by fastforce
  let ?result = "(case res of Inl err \<Rightarrow> failed_result t err | Inr result \<Rightarrow> result)"
  let ?ctx' = "(if Success ?result then contextBuilder @ context_entry t ?result
                else contextBuilder)"
  obtain steps' w2 where rec: "sequential_loop marshal r (Suc i) rest ?ctx' w1 = (steps', w2)"
    by fastforce
  have steps: "steps = (?input, ?result) # steps'"
    using Cons.prems by (simp add: inv Let_def rec)
  have ctx: "?ctx' = contextBuilder @ context_of [(t, ?result)]"
    by (simp add: context_of_Cons)
  from Cons.IH [OF rec]
  have len: "length steps' = length rest"
    and ih: "\<And>j. j < length rest \<Longrightarrow>
               fst (steps' ! j)
                 = effective_input (?ctx' @ context_of (take j (zip rest (map snd steps'))))
                     (Suc i + j) (rest ! j)"
    by simp_all
  have "fst (steps ! j)
          = effective_input
              (contextBuilder @ context_of (take j (zip (t # rest) (map snd steps))))
              (i + j) ((t # rest) ! j)"
    if "j < length (t # rest)" for j
  proof (cases j)
    case 0
    then show ?thesis by (simp add: steps)
  next
    case (Suc j')
    with that have "j' < length rest" by simp
    from ih [OF this] show ?thesis
      unfolding ctx by (simp add: Suc steps context_of_Cons)
  qed
  then show ?case by (simp add: steps len)
qed

lemma take_split_at:
  assumes "i < j" and "j \<le> length xs"
  shows "take j xs = take i xs @ xs ! i # take (j - Suc i) (drop (Suc i) xs)"
proof -
  have "i < length (take j xs)" using assms by simp
  from id_take_nth_drop [OF this]
  show ?thesis using assms by (simp add: min_def drop_take)
qed

lemma sequential_loop_failure_step:
  "Runner_Invoke marshal r (task_Agent t) (effective_input contextBuilder i t) w = (Inl err, w1)
   \<Longrightarrow> sequential_loop marshal r i (t # rest) contextBuilder w
         = (case sequential_loop marshal r (Suc i) rest contextBuilder w1 of
              (steps, w') \<Rightarrow> ((effective_input contextBuilder i t, failed_result t err) # steps, w'))"
  by (simp add: Let_def failed_result_def)

text \<open>
  Claim C4. Let \<open>InvokeSequential\<close> run a non-empty list of tasks, and let
  \<open>steps\<close> pair, for every task, the input passed to \<open>r.Invoke\<close> with the result
  recorded. There is one step per task: no failure halts the sequence. When the
  result of task \<open>i\<close> is successful, the input of every later task \<open>j\<close> is
  \<open>Previous context:\n<accumulated>\n\nCurrent task:\n<input of j>\<close>, where the
  accumulated block contains the entry \<open>\n[<agent of i>]: <output of i>\n\<close>. When
  the result of task \<open>i\<close> is not successful, the input of a later task \<open>j\<close> is
  built from the context of the tasks before \<open>j\<close> other than \<open>i\<close>: the failure
  adds nothing to the context block. When \<open>r.Invoke\<close> returns an error for a
  task, the failed \<open>AgentResult\<close> is recorded for it and the loop goes on with the
  next task and the same context block.
\<close>

theorem sequential_context_chaining:
  assumes run: "sequential_loop marshal r 0 tasks '''' w = (steps, w')"
    and ne: "tasks \<noteq> []"
  shows "InvokeSequential marshal r tasks w = (Inr (map snd steps), w')
       \<and> length steps = length tasks
       \<and> (\<forall>i j. i < j \<and> j < length tasks \<and> Success (snd (steps ! i)) \<longrightarrow>
            (\<exists>before after.
               fst (steps ! j)
                 = ''Previous context:'' @ [CHR 0x0A]
                   @ (before @ [CHR 0x0A] @ ''['' @ task_Agent (tasks ! i) @ '']: ''
                        @ Output (snd (steps ! i)) @ [CHR 0x0A] @ after)
                   @ [CHR 0x0A, CHR 0x0A] @ ''Current task:'' @ [CHR 0x0A]
                   @ task_Input (tasks ! j)))
       \<and> (\<forall>i j. i < j \<and> j < length tasks \<and> \<not> Success (snd (steps ! i)) \<longrightarrow>
            fst (steps ! j)
              = effective_input
                  (context_of (take i (zip tasks (map snd steps))
                               @ take (j - Suc i) (drop (Suc i) (zip tasks (map snd steps)))))
                  j (tasks ! j))
       \<and> (\<forall>t rest i contextBuilder w0 err w1.
            Runner_Invoke marshal r (task_Agent t) (effective_input contextBuilder i t) w0
              = (Inl err, w1) \<longrightarrow>
            sequential_loop marshal r i (t # rest) contextBuilder w0
              = (case sequential_loop marshal r (Suc i) rest contextBuilder w1 of
                   (steps, w'') \<Rightarrow>
                     ((effective_input contextBuilder i t,
                       \<lparr>Agent = task_Agent t, Input = task_Input t, Output = '''',
                        Success = False, Error = error_string err\<rparr>) # steps, w'')))"
proof -
  let ?pairs = "zip tasks (map snd steps)"
  from sequential_loop_inputs [OF run]
  have len: "length steps = length tasks"
    and inp: "\<And>j. j < length tasks \<Longrightarrow>
                fst (steps ! j) = effective_input (context_of (take j ?pairs)) j (tasks ! j)"
    by simp_all
  have plen: "length ?pairs = length tasks" by (simp add: len)
  have split: "take j ?pairs = take i ?pairs @ (tasks ! i, snd (steps ! i)) # take (j - Suc i) (drop (Suc i) ?pairs)"
    if "i < j" "j < length tasks" for i j
    using take_split_at [of i j ?pairs] that by (simp add: len)
  have a: "InvokeSequential marshal r tasks w = (Inr (map snd steps), w')"
    using ne by (simp add: InvokeSequential_def run)
  have c: "\<exists>before after.
             fst (steps ! j)
               = ''Previous context:'' @ [CHR 0x0A]
                 @ (before @ [CHR 0x0A] @ ''['' @ task_Agent (tasks ! i) @ '']: ''
                      @ Output (snd (steps ! i)) @ [CHR 0x0A] @ after)
                 @ [CHR 0x0A, CHR 0x0A] @ ''Current task:'' @ [CHR 0x0A]
                 @ task_Input (tasks ! j)"
    if "i < j" "j < length tasks" "Success (snd (steps ! i))" for i j
  proof -
    let ?before = "context_of (take i ?pairs)"
    let ?after = "context_of (take (j - Suc i) (drop (Suc i) ?pairs))"
    have "context_of (take j ?pairs)
            = ?before @ context_entry (tasks ! i) (snd (steps ! i)) @ ?after"
      using that(3) by (simp add: split [OF that(1,2)] context_of_Cons)
    then have "fst (steps ! j)
            = ''Previous context:'' @ [CHR 0x0A]
              @ (?before @ [CHR 0x0A] @ ''['' @ task_Agent (tasks ! i) @ '']: ''
                   @ Output (snd (steps ! i)) @ [CHR 0x0A] @ ?after)
              @ [CHR 0x0A, CHR 0x0A] @ ''Current task:'' @ [CHR 0x0A]
              @ task_Input (tasks ! j)"
      using that(1) by (simp add: inp [OF that(2)] effective_input_def context_entry_def)
    then show ?thesis by blast
  qed
  have d: "fst (steps ! j)
             = effective_input
                 (context_of (take i ?pairs @ take (j - Suc i) (drop (Suc i) ?pairs))) j (tasks ! j)"
    if "i < j" "j < length tasks" "\<not> Success (snd (steps ! i))" for i j
    using that(3) by (simp add: inp [OF that(2)] split [OF that(1,2)] context_of_Cons)
  have e: "sequential_loop marshal r i (t # rest) contextBuilder w0
              = (case sequential_loop marshal r (Suc i) rest contextBuilder w1 of
                   (steps, w'') \<Rightarrow>
                     ((effective_input contextBuilder i t,
                       \<lparr>Agent = task_Agent t, Input = task_Input t, Output = '''',
                        Success = False, Error = error_string err\<rparr>) # steps, w''))"
    if "Runner_Invoke marshal r (task_Agent t) (effective_input contextBuilder i t) w0
              = (Inl err, w1)" for t rest i contextBuilder w0 err w1
    using sequential_loop_failure_step [OF that] by (simp add: failed_result_def)
  show ?thesis
  proof (intro conjI allI impI)
    show "InvokeSequential marshal r tasks w = (Inr (map snd steps), w')" by (rule a)
    show "length steps = length tasks" by (rule len)
  next
    fix i j
    assume "i < j \<and> j < length tasks \<and> Success (snd (steps ! i))"
    then have "i < j" "j < length tasks" "Success (snd (steps ! i))" by simp_all
    then show "\<exists>before after.
             fst (steps ! j)
               = ''Previous context:'' @ [CHR 0x0A]
                 @ (before @ [CHR 0x0A] @ ''['' @ task_Agent (tasks ! i) @ '']: ''
                      @ Output (snd (steps ! i)) @ [CHR 0x0A] @ after)
                 @ [CHR 0x0A, CHR 0x0A] @ ''Current task:'' @ [CHR 0x0A]
                 @ task_Input (tasks ! j)"
      by (rule c)
  next
    fix i j
    assume "i < j \<and> j < length tasks \<and> \<not> Success (snd (steps ! i))"
    then have "i < j" "j < length tasks" "\<not> Success (snd (steps ! i))" by simp_all
    then show "fst (steps ! j)
             = effective_input
                 (context_of (take i ?pairs @ take (j - Suc i) (drop (Suc i) ?pairs))) j (tasks ! j)"
      by (rule d)
  next
    fix t rest i contextBuilder w0 err w1
    assume "Runner_Invoke marshal r (task_Agent t) (effective_input contextBuilder i t) w0
              = (Inl err, w1)"
    then show "sequential_loop marshal r i (t # rest) contextBuilder w0
              = (case sequential_loop marshal r (Suc i) rest contextBuilder w1 of
                   (steps, w'') \<Rightarrow>
                     ((effective_input contextBuilder i t,
                       \<lparr>Agent = task_Agent t, Input = task_Input t, Output = '''',
                        Success = False, Error = error_string err\<rparr>) # steps, w''))"
      by (rule e)
  qed
qed

lemma team_run:
  "sequential_loop (\<lambda>v. '''') team 0 team_tasks '''' () = (team_steps, ())"
  by (simp add: team_tasks_def team_steps_def team_def Runner_Invoke_def Invoke_def
        agent_loop.simps [of _ _ _ _ 0] maxIterations_def planner_agent_def
        effective_input_def context_entry_def failed_result_def team_context_def Let_def)

theorem sequential_context_chaining_witness:
  "sequential_loop (\<lambda>v. '''') team 0 team_tasks '''' () = (team_steps, ())
   \<and> team_tasks \<noteq> []
   \<and> InvokeSequential (\<lambda>v. '''') team team_tasks () = (Inr (map snd team_steps), ())
   \<and> length team_steps = length team_tasks"
proof -
  have ne: "team_tasks \<noteq> []" by (simp add: team_tasks_def)
  from sequential_context_chaining [OF team_run ne] team_run ne
  show ?thesis by simp
qed

subsection \<open>Parallel invocation\<close>

text \<open>
  \<open>NewRunner\<close> registers every agent under the name it gives to the agent.
\<close>

lemma NewEmbeddedAgent_name:
  "NewEmbeddedAgent os execute cfg toolSet client = Inr agent \<Longrightarrow> name agent = cfg_Name cfg"
  by (auto simp: NewEmbeddedAgent_def split: sum.splits)

lemma register_agents_named:
  "register_agents os execute toolSet client cfgs registry = Inr registry' \<Longrightarrow>
   \<forall>k a. registry k = Some a \<longrightarrow> name a = k \<Longrightarrow>
   \<forall>k a. registry' k = Some a \<longrightarrow> name a = k"
proof (induction cfgs arbitrary: registry)
  case Nil
  then show ?case by simp
next
  case (Cons agentCfg rest)
  from Cons.prems(1) obtain agent where
    n: "NewEmbeddedAgent os execute agentCfg toolSet client = Inr agent"
    and r: "register_agents os execute toolSet client rest
              (registry(cfg_Name agentCfg \<mapsto> agent)) = Inr registry'"
    by (auto split: sum.splits)
  have "\<forall>k a. (registry(cfg_Name agentCfg \<mapsto> agent)) k = Some a \<longrightarrow> name a = k"
    using Cons.prems(2) NewEmbeddedAgent_name [OF n] by auto
  from Cons.IH [OF r this] show ?case .
qed

lemma NewRunner_registry_named:
  "NewRunner validate os execute cfg client = Inr r \<Longrightarrow> registry_named r"
  unfolding registry_named_def
  by (auto simp: NewRunner_def split: sum.splits dest!: register_agents_named)

text \<open>
  A result returned by the agent loop carries the agent's name.
\<close>

lemma agent_loop_Agent:
  "agent_loop marshal a input toolDefs i messages w = (Inr res, w') \<Longrightarrow> Agent res = name a"
proof (induction "maxIterations - i" arbitrary: i messages w)
  case 0
  then have "\<not> i < maxIterations" by simp
  with "0.prems" show ?case by (auto simp: agent_loop.simps [of _ _ _ _ i])
next
  case (Suc k)
  then have lt: "i < maxIterations" by simp
  have k: "k = maxIterations - Suc i" using Suc.hyps(2) by simp
  obtain r w1 where c: "llm a messages toolDefs w = (r, w1)" by fastforce
  show ?case
  proof (cases r)
    case (Inl err)
    with Suc.prems lt c show ?thesis by (simp add: agent_loop.simps [of _ _ _ _ i])
  next
    case (Inr resp)
    show ?thesis
    proof (cases "ToolCalls resp = [] \<or> Done resp")
      case True
      with Suc.prems lt c Inr show ?thesis
        by (auto simp: agent_loop.simps [of _ _ _ _ i])
    next
      case False
      obtain messages' w2 where
        e: "executeToolCalls marshal (tools a) (ToolCalls resp)
              (messages @ [\<lparr>Role = ''assistant'', Content = resp_Content resp,
                             Name = '''', ToolID = ''''\<rparr>]) w1 = (messages', w2)"
        by fastforce
      have "agent_loop marshal a input toolDefs (Suc i) messages' w2 = (Inr res, w')"
        using Suc.prems lt c Inr False e by (simp add: agent_loop.simps [of _ _ _ _ i])
      from Suc.hyps(1) [OF k this] show ?thesis .
    qed
  qed
qed

lemma Runner_Invoke_Agent:
  assumes "registry_named r"
    and "Runner_Invoke marshal r nm input w = (Inr res, w')"
  shows "Agent res = nm"
proof (cases "agents r nm")
  case None
  with assms(2) show ?thesis by (simp add: Runner_Invoke_def)
next
  case (Some a)
  obtain x w1 where i: "Invoke marshal a input w = (x, w1)" by fastforce
  with assms(2) Some have "x = Inr res"
    by (cases x) (simp_all add: Runner_Invoke_def)
  with i have "Agent res = name a"
    using agent_loop_Agent [of marshal a input _ 0 _ w res w1] by (simp add: Invoke_def)
  moreover have "name a = nm" using assms(1) Some by (simp add: registry_named_def)
  ultimately show ?thesis by simp
qed

lemma slot_of_Agent:
  "registry_named r \<Longrightarrow> Agent (slot_of marshal r t w) = task_Agent t"
  by (auto simp: slot_of_def failed_result_def split: prod.splits sum.splits
           dest: Runner_Invoke_Agent)

lemma parallel_worker_slot:
  "\<exists>errors' w'. parallel_worker marshal r idx t (results, errors, w)
     = (results[idx := Some (slot_of marshal r t w)], errors', w')"
  by (auto simp: parallel_worker_def slot_of_def split: prod.splits sum.splits)

lemma parallel_fold_slots:
  assumes "foldl (\<lambda>st idx. parallel_worker marshal r idx (tasks ! idx) st)
             (results, errors, w) sched = (results', errors', w')"
  shows "length results' = length results
       \<and> (\<forall>i < length results.
            (i \<in> set sched \<longrightarrow>
               (\<exists>w0. results' ! i = Some (slot_of marshal r (tasks ! i) w0)))
          \<and> (i \<notin> set sched \<longrightarrow> results' ! i = results ! i))"
  using assms
proof (induction sched arbitrary: results errors w)
  case Nil
  then show ?case by simp
next
  case (Cons idx sched)
  obtain errors1 w1 where
    s: "parallel_worker marshal r idx (tasks ! idx) (results, errors, w)
          = (results[idx := Some (slot_of marshal r (tasks ! idx) w)], errors1, w1)"
    using parallel_worker_slot [of marshal r idx "tasks ! idx" results errors w] by auto
  let ?results1 = "results[idx := Some (slot_of marshal r (tasks ! idx) w)]"
  have f: "foldl (\<lambda>st idx. parallel_worker marshal r idx (tasks ! idx) st)
             (?results1, errors1, w1) sched = (results', errors', w')"
    using Cons.prems by (simp add: s)
  from Cons.IH [OF f]
  have len: "length results' = length results"
    and ih: "\<And>i. i < length results \<Longrightarrow>
               (i \<in> set sched \<longrightarrow>
                  (\<exists>w0. results' ! i = Some (slot_of marshal r (tasks ! i) w0)))
             \<and> (i \<notin> set sched \<longrightarrow> results' ! i = ?results1 ! i)"
    by simp_all
  have "(i \<in> set (idx # sched) \<longrightarrow>
           (\<exists>w0. results' ! i = Some (slot_of marshal r (tasks ! i) w0)))
      \<and> (i \<notin> set (idx # sched) \<longrightarrow> results' ! i = results ! i)"
    if "i < length results" for i
  proof (cases "i \<in> set sched")
    case True
    with ih [OF that] show ?thesis by simp
  next
    case False
    with ih [OF that] have r: "results' ! i = ?results1 ! i" by simp
    show ?thesis
    proof (cases "i = idx")
      case True
      with r that have "results' ! i = Some (slot_of marshal r (tasks ! i) w)" by simp
      with True show ?thesis by auto
    next
      case ne: False
      with r False show ?thesis by simp
    qed
  qed
  with len show ?case by blast
qed

lemma parallel_results_follow_task_order:
  assumes named: "registry_named r"
    and sched: "distinct sched \<and> set sched = {0..<length tasks}"
  shows "\<exists>results w'.
           InvokeParallel marshal r tasks sched w = (Inr results, w')
         \<and> length results = length tasks
         \<and> (\<forall>i < length tasks.
               \<exists>res w0. results ! i = Some res
                 \<and> Agent res = task_Agent (tasks ! i)
                 \<and> (case Runner_Invoke marshal r (task_Agent (tasks ! i))
                             (task_Input (tasks ! i)) w0 of
                      (Inl err, w1) \<Rightarrow>
                        res = \<lparr>Agent = task_Agent (tasks ! i), Input = task_Input (tasks ! i),
                               Output = '''', Success = False, Error = error_string err\<rparr>
                    | (Inr result, w1) \<Rightarrow> res = result)
                 \<and> (agents r (task_Agent (tasks ! i)) = None \<longrightarrow>
                      res = \<lparr>Agent = task_Agent (tasks ! i), Input = task_Input (tasks ! i),
                             Output = '''', Success = False,
                             Error = ''agent not found: '' @ task_Agent (tasks ! i)\<rparr>))"
proof (cases "tasks = []")
  case True
  then show ?thesis by (simp add: InvokeParallel_def)
next
  case False
  let ?n = "length tasks"
  obtain results errors w' where
    f: "foldl (\<lambda>st idx. parallel_worker marshal r idx (tasks ! idx) st)
          (replicate ?n None, replicate ?n None, w) sched = (results, errors, w')"
    by (metis prod_cases3)
  from parallel_fold_slots [OF f]
  have len: "length results = ?n"
    and slots: "\<And>i. i < ?n \<Longrightarrow> \<exists>w0. results ! i = Some (slot_of marshal r (tasks ! i) w0)"
    using sched by simp_all
  have inv: "InvokeParallel marshal r tasks sched w = (Inr results, w')"
    using False by (simp add: InvokeParallel_def f)
  have "\<exists>res w0. results ! i = Some res
          \<and> Agent res = task_Agent (tasks ! i)
          \<and> (case Runner_Invoke marshal r (task_Agent (tasks ! i))
                      (task_Input (tasks ! i)) w0 of
               (Inl err, w1) \<Rightarrow>
                 res = \<lparr>Agent = task_Agent (tasks ! i), Input = task_Input (tasks ! i),
                        Output = '''', Success = False, Error = error_string err\<rparr>
             | (Inr result, w1) \<Rightarrow> res = result)
          \<and> (agents r (task_Agent (tasks ! i)) = None \<longrightarrow>
               res = \<lparr>Agent = task_Agent (tasks ! i), Input = task_Input (tasks ! i),
                      Output = '''', Success = False,
                      Error = ''agent not found: '' @ task_Agent (tasks ! i)\<rparr>)"
    if lt: "i < ?n" for i
  proof -
    obtain w0 where s: "results ! i = Some (slot_of marshal r (tasks ! i) w0)"
      using slots [OF lt] by auto
    let ?res = "slot_of marshal r (tasks ! i) w0"
    have 1: "Agent ?res = task_Agent (tasks ! i)" by (rule slot_of_Agent [OF named])
    have 2: "(case Runner_Invoke marshal r (task_Agent (tasks ! i))
                      (task_Input (tasks ! i)) w0 of
               (Inl err, w1) \<Rightarrow>
                 ?res = \<lparr>Agent = task_Agent (tasks ! i), Input = task_Input (tasks ! i),
                        Output = '''', Success = False, Error = error_string err\<rparr>
             | (Inr result, w1) \<Rightarrow> ?res = result)"
      by (simp add: slot_of_def failed_result_def split: prod.splits sum.splits)
    have 3: "agents r (task_Agent (tasks ! i)) = None \<longrightarrow>
               ?res = \<lparr>Agent = task_Agent (tasks ! i), Input = task_Input (tasks ! i),
                      Output = '''', Success = False,
                      Error = ''agent not found: '' @ task_Agent (tasks ! i)\<rparr>"
      by (simp add: slot_of_def failed_result_def Runner_Invoke_def)
    show ?thesis
      by (rule exI [of _ ?res], rule exI [of _ w0]) (intro conjI s 1 2 3)
  qed
  with inv len show ?thesis by blast
qed

text \<open>
  Claim C3. Let the runner be built by \<open>NewRunner\<close> and let the goroutines of
  \<open>InvokeParallel\<close> run in any order \<open>sched\<close>, a permutation of the task
  indices. Then the call returns a result list and no error; the list has the length
  of the task list; the entry at every index \<open>i\<close> is set, carries the agent name of
  task \<open>i\<close>, and is what \<open>r.Invoke\<close> returned for task \<open>i\<close> in the world the
  goroutine ran in, or, when \<open>r.Invoke\<close> returned an error, the failed
  \<open>AgentResult\<close> with \<open>Success = false\<close> and that error's message; for an
  unknown agent name this is \<open>agent not found: <name>\<close>.
\<close>

theorem parallel_results_keep_task_order:
  assumes built: "NewRunner validate os execute cfg client = Inr r"
    and sched: "distinct sched \<and> set sched = {0..<length tasks}"
  shows "\<exists>results w'.
           InvokeParallel marshal r tasks sched w = (Inr results, w')
         \<and> length results = length tasks
         \<and> (\<forall>i < length tasks.
               \<exists>res w0. results ! i = Some res
                 \<and> Agent res = task_Agent (tasks ! i)
                 \<and> (case Runner_Invoke marshal r (task_Agent (tasks ! i))
                             (task_Input (tasks ! i)) w0 of
                      (Inl err, w1) \<Rightarrow>
                        res = \<lparr>Agent = task_Agent (tasks ! i), Input = task_Input (tasks ! i),
                               Output = '''', Success = False, Error = error_string err\<rparr>
                    | (Inr result, w1) \<Rightarrow> res = result)
                 \<and> (agents r (task_Agent (tasks ! i)) = None \<longrightarrow>
                      res = \<lparr>Agent = task_Agent (tasks ! i), Input = task_Input (tasks ! i),
                             Output = '''', Success = False,
                             Error = ''agent not found: '' @ task_Agent (tasks ! i)\<rparr>))"
  by (rule parallel_results_follow_task_order [OF NewRunner_registry_named [OF built] sched])

lemma team_built:
  "NewRunner Inr plain_os (\<lambda>nm args w. (Inr (), w)) team_config (llm planner_agent) = Inr team"
  by (simp add: NewRunner_def team_config_def NewEmbeddedAgent_def load_instructions_def
        HasSuffix_def team_def planner_agent_def)

theorem parallel_results_keep_task_order_witness:
  "NewRunner Inr plain_os (\<lambda>nm args w. (Inr (), w)) team_config (llm planner_agent) = Inr team
   \<and> (distinct [2, 0, 1 :: nat] \<and> set [2, 0, 1] = {0..<length team_tasks})
   \<and> InvokeParallel (\<lambda>v. '''') team team_tasks [2, 0, 1] ()
     = (Inr [Some \<lparr>Agent = ''planner'', Input = ''design'', Output = ''use a queue'',
                    Success = True, Error = ''''\<rparr>,
             Some \<lparr>Agent = ''ghost'', Input = ''haunt'', Output = '''', Success = False,
                    Error = ''agent not found: ghost''\<rparr>,
             Some \<lparr>Agent = ''planner'', Input = ''build'', Output = ''use a queue'',
                    Success = True, Error = ''''\<rparr>], ())
   \<and> (\<exists>results w'.
         InvokeParallel (\<lambda>v. '''') team team_tasks [2, 0, 1] () = (Inr results, w')
         \<and> length results = length team_tasks
         \<and> (\<forall>i < length team_tasks.
               \<exists>res. results ! i = Some res \<and> Agent res = task_Agent (team_tasks ! i)))"
proof -
  have s: "distinct [2, 0, 1 :: nat] \<and> set [2, 0, 1] = {0..<length team_tasks}"
    by (auto simp: team_tasks_def)
  have run: "InvokeParallel (\<lambda>v. '''') team team_tasks [2, 0, 1] ()
     = (Inr [Some \<lparr>Agent = ''planner'', Input = ''design'', Output = ''use a queue'',
                    Success = True, Error = ''''\<rparr>,
             Some \<lparr>Agent = ''ghost'', Input = ''haunt'', Output = '''', Success = False,
                    Error = ''agent not found: ghost''\<rparr>,
             Some \<lparr>Agent = ''planner'', Input = ''build'', Output = ''use a queue'',
                    Success = True, Error = ''''\<rparr>], ())"
    by (simp add: InvokeParallel_def parallel_worker_def team_tasks_def team_def
          Runner_Invoke_def Invoke_def agent_loop.simps [of _ _ _ _ 0] maxIterations_def
          planner_agent_def failed_result_def)
  from parallel_results_keep_task_order [OF team_built s, of "\<lambda>v. ''''" "()"]
  obtain results w' where
    r: "InvokeParallel (\<lambda>v. '''') team team_tasks [2, 0, 1] () = (Inr results, w')"
       "length results = length team_tasks"
    and a: "\<forall>i < length team_tasks.
              \<exists>res w0. results ! i = Some res \<and> Agent res = task_Agent (team_tasks ! i)
                \<and> (case Runner_Invoke (\<lambda>v. '''') team (task_Agent (team_tasks ! i))
                             (task_Input (team_tasks ! i)) w0 of
                      (Inl err, w1) \<Rightarrow>
                        res = \<lparr>Agent = task_Agent (team_tasks ! i),
                               Input = task_Input (team_tasks ! i),
                               Output = '''', Success = False, Error = error_string err\<rparr>
                    | (Inr result, w1) \<Rightarrow> res = result)
                \<and> (agents team (task_Agent (team_tasks ! i)) = None \<longrightarrow>
                      res = \<lparr>Agent = task_Agent (team_tasks ! i),
                             Input = task_Input (team_tasks ! i),
                             Output = '''', Success = False,
                             Error = ''agent not found: '' @ task_Agent (team_tasks ! i)\<rparr>)"
    by (elim exE conjE)
  have "\<forall>i < length team_tasks.
          \<exists>res. results ! i = Some res \<and> Agent res = task_Agent (team_tasks ! i)"
    using a by fast
  with r have "\<exists>results w'.
         InvokeParallel (\<lambda>v. '''') team team_tasks [2, 0, 1] () = (Inr results, w')
         \<and> length results = length team_tasks
         \<and> (\<forall>i < length team_tasks.
               \<exists>res. results ! i = Some res \<and> Agent res = task_Agent (team_tasks ! i))"
    by (intro exI conjI)
  with team_built s run show ?thesis by (intro conjI) simp_all
qed

subsection \<open>Empty batches\<close>

text \<open>
  Claim C10. On an empty task list \<open>InvokeParallel\<close> and \<open>InvokeSequential\<close>
  return the nil result list and the nil error, and leave the world as it is.
\<close>

theorem empty_batch_returns_nothing:
  "InvokeParallel marshal r [] sched w = (Inr [], w)
   \<and> InvokeSequential marshal r [] w = (Inr [], w)"
  by (simp add: InvokeParallel_def InvokeSequential_def)

section \<open>Properties of the sandbox\<close>

subsection \<open>Shell execution\<close>

text \<open>
  Claim C7. \<open>RunCommand\<close> starts the command with the workspace as its working
  directory. When the run ends without error the result has exit code 0; when it
  ends with an \<open>*exec.ExitError\<close> the result has that exit code and no error is
  returned; in both cases \<open>Stdout\<close> and \<open>Stderr\<close> are the contents of the two
  buffers. An error is returned exactly when the run ends with another error (the
  process could not be started). \<open>RunShell\<close> is \<open>RunCommand\<close> on \<open>sh -c\<close>, and
  \<open>Success()\<close> holds exactly when the exit code is 0.
\<close>

theorem run_command_reports_exit_status_as_data:
  "(exec command args (workspace ts) w = (outcome, w') \<longrightarrow>
      (run_err outcome = None \<longrightarrow>
         RunCommand exec ts command args w
           = (Inr \<lparr>Command = command, Args = args, Stdout = run_stdout outcome,
                   Stderr = run_stderr outcome, ExitCode = 0\<rparr>, w'))
    \<and> (\<forall>code. run_err outcome = Some (ExitError code) \<longrightarrow>
         RunCommand exec ts command args w
           = (Inr \<lparr>Command = command, Args = args, Stdout = run_stdout outcome,
                   Stderr = run_stderr outcome, ExitCode = code\<rparr>, w'))
    \<and> (\<forall>err. run_err outcome = Some (OtherError err) \<longrightarrow>
         RunCommand exec ts command args w
           = (Inl (Wrap ''command execution failed'' err), w'))
    \<and> ((\<exists>e. RunCommand exec ts command args w = (Inl e, w'))
         \<longleftrightarrow> (\<exists>err. run_err outcome = Some (OtherError err))))
   \<and> RunShell exec ts shellCmd w = RunCommand exec ts ''sh'' [''-c'', shellCmd] w
   \<and> (CommandResult_Success result \<longleftrightarrow> ExitCode result = 0)"
  by (auto simp: RunCommand_def RunShell_def CommandResult_Success_def Let_def
           split: option.splits run_error.splits)

theorem run_command_reports_exit_status_as_data_witness:
  "failing_shell ''sh'' [''-c'', ''ls missing''] (workspace (NewToolSet ''/ws'')) ()
     = (\<lparr>run_stdout = ''in /ws'', run_stderr = ''no such file'',
         run_err = Some (ExitError 2)\<rparr>, ())
   \<and> RunShell failing_shell (NewToolSet ''/ws'') ''ls missing'' ()
     = (Inr \<lparr>Command = ''sh'', Args = [''-c'', ''ls missing''], Stdout = ''in /ws'',
             Stderr = ''no such file'', ExitCode = 2\<rparr>, ())
   \<and> \<not> CommandResult_Success
         \<lparr>Command = ''sh'', Args = [''-c'', ''ls missing''], Stdout = ''in /ws'',
          Stderr = ''no such file'', ExitCode = 2\<rparr>"
  using run_command_reports_exit_status_as_data
          [of failing_shell "''sh''" "[''-c'', ''ls missing'']" "NewToolSet ''/ws''" "()"
              "\<lparr>run_stdout = ''in /ws'', run_stderr = ''no such file'',
                run_err = Some (ExitError 2)\<rparr>" "()" "''ls missing''"
              "\<lparr>Command = ''sh'', Args = [''-c'', ''ls missing''], Stdout = ''in /ws'',
                Stderr = ''no such file'', ExitCode = 2\<rparr>"]
  by (simp add: failing_shell_def NewToolSet_def)

subsection \<open>Reading a file\<close>

text \<open>
  Claim C9. The maximum file size of a new tool set is 10 MiB. For a path that the
  sandbox accepts and whose target exists: \<open>ReadFile\<close> fails when the target is a
  directory; it fails with \<open>file too large\<close>, without reading, when the size exceeds
  the maximum; otherwise it returns what \<open>os.ReadFile\<close> returns, the full content
  (or the wrapped error of that read).
\<close>

theorem read_file_checks_directory_and_size:
  "maxFileSize (NewToolSet ws) = 10 * 1024 * 1024
   \<and> (validatePath os ts path = Inr absPath \<and> Stat os absPath = Inr info \<longrightarrow>
        (IsDir info \<longrightarrow> ReadFile os ts path = Inl (New (''path is a directory: '' @ path)))
      \<and> (\<not> IsDir info \<and> Size info > maxFileSize ts \<longrightarrow>
           ReadFile os ts path
             = Inl (New (''file too large: '' @ format_int (Size info) @ '' bytes (max ''
                         @ format_int (maxFileSize ts) @ '')'')))
      \<and> (\<not> IsDir info \<and> Size info \<le> maxFileSize ts \<longrightarrow>
           (\<forall>content. os_ReadFile os absPath = Inr content \<longrightarrow>
              ReadFile os ts path = Inr content)
         \<and> (\<forall>err. os_ReadFile os absPath = Inl err \<longrightarrow>
              ReadFile os ts path = Inl (Wrap ''failed to read file'' err))))"
  by (simp add: ReadFile_def NewToolSet_def)

theorem read_file_checks_directory_and_size_witness:
  "validatePath plain_os (NewToolSet ''/ws'') ''a.txt'' = Inr ''/ws/a.txt''
   \<and> Stat plain_os ''/ws/a.txt'' = Inr \<lparr>IsDir = False, Size = 5\<rparr>
   \<and> os_ReadFile plain_os ''/ws/a.txt'' = Inr ''hello''
   \<and> ReadFile plain_os (NewToolSet ''/ws'') ''a.txt'' = Inr ''hello''
   \<and> validatePath plain_os (NewToolSet ''/ws'') ''big.bin'' = Inr ''/ws/big.bin''
   \<and> Stat plain_os ''/ws/big.bin'' = Inr \<lparr>IsDir = False, Size = 10485761\<rparr>
   \<and> ReadFile plain_os (NewToolSet ''/ws'') ''big.bin''
     = Inl (New ''file too large: 10485761 bytes (max 10485760)'')
   \<and> validatePath plain_os (NewToolSet ''/ws'') ''src'' = Inr ''/ws/src''
   \<and> Stat plain_os ''/ws/src'' = Inr \<lparr>IsDir = True, Size = 4096\<rparr>
   \<and> ReadFile plain_os (NewToolSet ''/ws'') ''src'' = Inl (New ''path is a directory: src'')"
proof -
  have v: "validatePath plain_os (NewToolSet ''/ws'') ''a.txt'' = Inr ''/ws/a.txt''"
          "validatePath plain_os (NewToolSet ''/ws'') ''big.bin'' = Inr ''/ws/big.bin''"
          "validatePath plain_os (NewToolSet ''/ws'') ''src'' = Inr ''/ws/src''"
    by (simp_all add: validatePath_def NewToolSet_def IsAbs_def HasPrefix_def Abs_def Rel_def
          Clean_def clean_step_def elements_def Let_def)
  have st: "Stat plain_os ''/ws/a.txt'' = Inr \<lparr>IsDir = False, Size = 5\<rparr>"
           "Stat plain_os ''/ws/big.bin'' = Inr \<lparr>IsDir = False, Size = 10485761\<rparr>"
           "Stat plain_os ''/ws/src'' = Inr \<lparr>IsDir = True, Size = 4096\<rparr>"
           "os_ReadFile plain_os ''/ws/a.txt'' = Inr ''hello''"
    by (simp_all add: plain_os_def)
  have f: "format_int 10485761 = ''10485761''" "format_int 10485760 = ''10485760''"
    by (simp_all add: format_int_def digits.simps)
  from read_file_checks_directory_and_size
         [of "''/ws''" plain_os "NewToolSet ''/ws''" "''a.txt''" "''/ws/a.txt''"
             "\<lparr>IsDir = False, Size = 5\<rparr>"]
       read_file_checks_directory_and_size
         [of "''/ws''" plain_os "NewToolSet ''/ws''" "''big.bin''" "''/ws/big.bin''"
             "\<lparr>IsDir = False, Size = 10485761\<rparr>"]
       read_file_checks_directory_and_size
         [of "''/ws''" plain_os "NewToolSet ''/ws''" "''src''" "''/ws/src''"
             "\<lparr>IsDir = True, Size = 4096\<rparr>"]
  show ?thesis by (simp add: v st f)
qed

subsection \<open>Path containment\<close>

text \<open>
  Claim C1, evaluated where the code departs from it. The path
  \<open>..data/config.yaml\<close> names a file strictly inside the workspace \<open>/ws\<close>: it
  joins to \<open>/ws/..data/config.yaml\<close>, which is already absolute and clean, and its
  form relative to the workspace is \<open>..data/config.yaml\<close>. \<open>validatePath\<close> tests
  this relative form with \<open>strings.HasPrefix(relPath, "..")\<close>, so it rejects the path
  as outside the workspace, while it accepts \<open>data/config.yaml\<close>.
\<close>

theorem dotdot_data_inside_workspace_is_rejected:
  "Join [''/ws'', ''..data/config.yaml''] = ''/ws/..data/config.yaml''
   \<and> Abs plain_os ''/ws/..data/config.yaml'' = Inr ''/ws/..data/config.yaml''
   \<and> Rel ''/ws'' ''/ws/..data/config.yaml'' = Inr ''..data/config.yaml''
   \<and> validatePath plain_os (NewToolSet ''/ws'') ''..data/config.yaml''
     = Inl (New ''path outside workspace: /ws/..data/config.yaml'')
   \<and> validatePath plain_os (NewToolSet ''/ws'') ''data/config.yaml''
     = Inr ''/ws/data/config.yaml''"
  by (simp add: validatePath_def NewToolSet_def IsAbs_def HasPrefix_def Abs_def Rel_def
        Clean_def clean_step_def elements_def Let_def)

section \<open>Properties of the MCP server\<close>

text \<open>
  Claim C8, as stated, fails on an empty line: \<open>json.Unmarshal\<close> rejects the empty
  input, but \<open>serve\<close> skips an empty line before decoding it and writes no
  response for it.
\<close>

theorem blank_line_gets_no_parse_error_counterexample:
  "json_Unmarshal stdio_backend '''' = Inl (New ''unexpected end of JSON input'')
   \<and> serve stdio_backend fresh_server ['''', tools_list_line] None [] ()
     = (None, fresh_server,
        [\<lparr>resp_JSONRPC = ''2.0'', resp_ID = Some ''7'',
          resp_Result = Some (ListToolsRes (tool_catalog [''planner''])),
          resp_Error = None\<rparr>], ())"
  by (simp add: stdio_backend_def one_request_decoder_def tools_list_line_def
        handleRequest_def handleToolsList_def writeResponse_def)

text \<open>
  Claim C8, amended. While the context is not done, every non-empty line that
  \<open>json.Unmarshal\<close> rejects makes \<open>serve\<close> write exactly one response, the error
  \<open>-32700\<close> \<open>Parse error\<close> with a nil id, and go on with the lines that follow, in
  the same state. Such a line followed by a well-formed \<open>tools/list\<close> request yields
  exactly two responses: the parse error, then the tool catalog under the id of the
  request.
\<close>

theorem parse_error_is_answered_and_serving_goes_on:
  "(\<not> ctx_Done be w \<and> line \<noteq> '''' \<and> json_Unmarshal be line = Inl err \<longrightarrow>
      serve be s (line # rest) scanErr out w
        = serve be s rest scanErr
            (out @ [\<lparr>resp_JSONRPC = ''2.0'', resp_ID = None, resp_Result = None,
                     resp_Error = Some \<lparr>Code = - 32700, Message = ''Parse error'',
                                         Data = Some err\<rparr>\<rparr>]) w)
   \<and> (\<not> ctx_Done be w \<and> line \<noteq> '''' \<and> json_Unmarshal be line = Inl err
        \<and> good \<noteq> '''' \<and> json_Unmarshal be good = Inr req \<and> Method req = ''tools/list'' \<longrightarrow>
      serve be s [line, good] scanErr [] w
        = (scanErr, s,
           [\<lparr>resp_JSONRPC = ''2.0'', resp_ID = None, resp_Result = None,
             resp_Error = Some \<lparr>Code = - 32700, Message = ''Parse error'',
                                 Data = Some err\<rparr>\<rparr>,
            \<lparr>resp_JSONRPC = ''2.0'', resp_ID = req_ID req,
             resp_Result = Some (ListToolsRes (tool_catalog (ListAgents be w))),
             resp_Error = None\<rparr>], w))"
  by (simp add: writeError_def writeResponse_def errorResponse_def ErrParseError_def
        handleRequest_def handleToolsList_def)

theorem parse_error_is_answered_and_serving_goes_on_witness:
  "\<not> ctx_Done stdio_backend () \<and> ''{oops'' \<noteq> ''''
   \<and> json_Unmarshal stdio_backend ''{oops'' = Inl (New ''invalid character in request'')
   \<and> tools_list_line \<noteq> ''''
   \<and> json_Unmarshal stdio_backend tools_list_line
       = Inr \<lparr>req_JSONRPC = ''2.0'', req_ID = Some ''7'', Method = ''tools/list'', Params = None\<rparr>
   \<and> serve stdio_backend fresh_server [''{oops'', tools_list_line] None [] ()
     = (None, fresh_server,
        [\<lparr>resp_JSONRPC = ''2.0'', resp_ID = None, resp_Result = None,
          resp_Error = Some \<lparr>Code = - 32700, Message = ''Parse error'',
                              Data = Some (New ''invalid character in request'')\<rparr>\<rparr>,
         \<lparr>resp_JSONRPC = ''2.0'', resp_ID = Some ''7'',
          resp_Result = Some (ListToolsRes (tool_catalog [''planner''])),
          resp_Error = None\<rparr>], ())"
  using parse_error_is_answered_and_serving_goes_on
          [of stdio_backend "()" "''{oops''" "New ''invalid character in request''"
              fresh_server "[]" None "[]" tools_list_line
              "\<lparr>req_JSONRPC = ''2.0'', req_ID = Some ''7'', Method = ''tools/list'',
                Params = None\<rparr>"]
  by (simp add: stdio_backend_def one_request_decoder_def tools_list_line_def
        writeError_def writeResponse_def errorResponse_def ErrParseError_def
        handleRequest_def handleToolsList_def)

end
